theory Spec2Isabelle
  imports Complex_Main "HOL-Library.Word"
begin

section \<open>Data model of \<open>transaction.js\<close>\<close>

text \<open>
  A method of the transaction takes the object and returns it as the call leaves it.
  A method that can raise returns \<open>Inr\<close> of its result, or \<open>Inl (e, t)\<close>: the exception
  \<open>e\<close> and the object \<open>t\<close> as it stands when \<open>e\<close> is raised, with the assignments made
  until then. A collaborator that raises returns \<open>Inl e\<close>. Objects that the source
  compares by identity (\<open>!==\<close>, \<open>_.without\<close>) carry an identity tag: \<open>oid\<close> for outputs
  and \<open>iid\<close> for inputs. Amounts, fees, rates and sizes are integer-valued numbers, held
  as \<open>int\<close>, with the arithmetic of the section on numbers below; counts and positions
  that are array lengths or indices of the source are \<open>nat\<close> or \<open>int\<close>.
\<close>

type_synonym bytes = "8 word list"

type_synonym Script = bytes

record Output =
  oid :: nat
  satoshis :: int
  script :: Script

datatype InputClass =
  GenericInput | PublicKeyHash | PublicKey | MultiSigScriptHash | MultiSig

record TransactionSignature =
  inputIndex :: nat
  sigtype :: nat
  publicKey :: bytes
  signature :: bytes

record Input =
  iid :: nat
  clazz :: InputClass
  prevTxId :: bytes
  outputIndex :: nat
  sequenceNumber :: nat
  scriptBuffer :: bytes
  input_output :: "Output option"
  signatures :: "TransactionSignature list"

record Transaction =
  version :: int
  nLockTime :: int
  inputs :: "Input list"
  outputs :: "Output list"
  priv_inputAmount :: "int option"
  priv_outputAmount :: "int option"
  priv_changeScript :: "Script option"
  priv_changeIndex :: "int option"
  priv_fee :: "int option"
  priv_feePerKb :: "int option"

datatype error =
    MissingPreviousOutput
  | NeedMoreInfo
  | InvalidIndex int nat
  | InvalidState string
  | InvalidArgument string
  | UnsupportedScript
  | UnableToVerifySignature
  | AbstractMethodInvoked
  | TypeError
  | InvalidSatoshis
  | InvalidOutputAmountSum
  | FeeError_Different
  | ChangeAddressMissing
  | FeeError_TooLarge
  | FeeError_TooSmall
  | DustOutputs
  | MissingSignatures

text \<open>
  The classes \<open>Input\<close>, \<open>Output\<close>, \<open>Script\<close>, \<open>Address\<close> and the buffer codec live in
  other files of the repository. What \<open>transaction.js\<close> asks of them is a parameter of
  the model: one record of collaborator functions, passed to every operation that
  calls one.
\<close>

record collab =
  Input_isNull :: "Input \<Rightarrow> bool"
  Input_estimateSize :: "Input \<Rightarrow> int"
  Input_isFullySigned :: "Input \<Rightarrow> bool"
  Input_getSignatures ::
    "Transaction \<Rightarrow> bytes \<Rightarrow> nat \<Rightarrow> nat \<Rightarrow> Input \<Rightarrow> error + TransactionSignature list"
  Input_addSignature :: "Transaction \<Rightarrow> TransactionSignature \<Rightarrow> Input \<Rightarrow> error + Input"
  Input_toBuffer :: "Input \<Rightarrow> bytes"
  Output_invalidSatoshis :: "Output \<Rightarrow> bool"
  Output_toBuffer :: "Output \<Rightarrow> bytes"
  Script_isDataOut :: "Script \<Rightarrow> bool"
  Script_isPublicKeyHashOut :: "Script \<Rightarrow> bool"
  Script_isScriptHashOut :: "Script \<Rightarrow> bool"
  Script_isPublicKeyOut :: "Script \<Rightarrow> bool"
  Script_fromAddress :: "string \<Rightarrow> error + Script"
  Script_fromString :: "string \<Rightarrow> error + Script"
  BufferWriter_int32LE :: "int \<Rightarrow> bytes"
  BufferWriter_uint32LE :: "int \<Rightarrow> bytes"
  BufferWriter_varintNum :: "nat \<Rightarrow> bytes"
  Buffer_toString :: "bytes \<Rightarrow> string"
  Hash_sha256sha256 :: "bytes \<Rightarrow> bytes"
  Signature_SIGHASH_ALL :: nat
  Signature_SIGHASH_FORKID :: nat

definition DUST_AMOUNT :: int where
  "DUST_AMOUNT = 546"

definition FEE_SECURITY_MARGIN :: int where
  "FEE_SECURITY_MARGIN = 150"

definition MAX_MONEY :: int where
  "MAX_MONEY = 21000000 * 100000000"

definition MAX_BLOCK_SIZE :: int where
  "MAX_BLOCK_SIZE = 1000000"

definition FEE_PER_KB :: int where
  "FEE_PER_KB = 100000"

definition CHANGE_OUTPUT_MAX_SIZE :: int where
  "CHANGE_OUTPUT_MAX_SIZE = 20 + 4 + 34 + 4"

definition MAXIMUM_EXTRA_SIZE :: int where
  "MAXIMUM_EXTRA_SIZE = 4 + 9 + 9 + 4"

section \<open>Numbers\<close>

text \<open>
  The numbers of the source are IEEE 754 double-precision numbers. Every integer of
  magnitude up to \<open>2^53\<close> is one of them; above, the doubles are the multiples of a power
  of two that have 53 significant bits. The sum, the difference and the product of two
  doubles are the exact result rounded to the nearest double, to the one with the even
  significand when two are as near. \<open>binade n\<close> is the number of low bits that \<open>n\<close> has
  beyond 53, and \<open>dbl\<close> rounds an integer to the nearest double. (From \<open>2^1024\<close> on a
  double is infinite; the numbers of the model stay below.)
\<close>

fun binade :: "nat \<Rightarrow> nat" where
  "binade n = (if n < 9007199254740992 then 0 else Suc (binade (n div 2)))"

definition dbl :: "int \<Rightarrow> int" where
  "dbl x =
     (let n = nat \<bar>x\<bar>;
          u = 2 ^ binade n;
          q = n div u;
          r = n mod u;
          q' = (if 2 * r > u \<or> (2 * r = u \<and> odd q) then q + 1 else q)
      in sgn x * int (q' * u))"

definition js_add :: "int \<Rightarrow> int \<Rightarrow> int" where
  "js_add a b = dbl (a + b)"

definition js_sub :: "int \<Rightarrow> int \<Rightarrow> int" where
  "js_sub a b = dbl (a - b)"

definition js_mul :: "int \<Rightarrow> int \<Rightarrow> int" where
  "js_mul a b = dbl (a * b)"

text \<open>
  \<open>Math.ceil(a / b)\<close>, for the two divisors \<open>b\<close> of the source, 1000 and 150. The
  quotient of the source is a double. For a dividend of magnitude up to \<open>2^53\<close> it is
  nearer to the exact quotient than \<open>1/b\<close>, and the exact quotient is an integer or at
  least \<open>1/b\<close> away from the integers around it, so that both have the same ceiling,
  which is what the model takes; the statements below that depend on its value keep
  the dividend in that range. \<open>Math.floor\<close> is applied to a product of integers.
\<close>

definition Math_ceil_div :: "int \<Rightarrow> int \<Rightarrow> int" where
  "Math_ceil_div a b = - ((- a) div b)"

definition Math_floor :: "int \<Rightarrow> int" where
  "Math_floor x = x"

text \<open>
  Modelled from the spec: \<open>JSUtil.isNaturalNumber\<close> is defined in \<open>util/js.js\<close> and the
  constructor of \<open>Output\<close> in \<open>output.js\<close>, which are not among the sources. The amount
  of an output is a non-negative integer, and an amount given to \<open>addInput\<close> is checked
  to be one; a constructor given anything else signals invalid-argument. The first
  argument of \<open>Output_new\<close> is the identity of the new object.
\<close>

definition JSUtil_isNaturalNumber :: "int \<Rightarrow> bool" where
  "JSUtil_isNaturalNumber n \<longleftrightarrow> 0 \<le> n"

definition Output_new :: "nat \<Rightarrow> Script \<Rightarrow> int \<Rightarrow> error + Output" where
  "Output_new ident s amount =
     (if JSUtil_isNaturalNumber amount
      then Inr \<lparr>oid = ident, satoshis = amount, script = s\<rparr>
      else Inl (InvalidArgument ''Output satoshis is not a natural number''))"

section \<open>Amounts, size and fee\<close>

text \<open>\<open>x || d\<close> on an optional number: \<open>undefined\<close> and \<open>0\<close> are falsy.\<close>

fun num_or :: "int option \<Rightarrow> int \<Rightarrow> int" where
  "num_or None d = d"
| "num_or (Some x) d = (if x = 0 then d else x)"

text \<open>\<open>_getOutputAmount\<close>: the memoised sum of the output amounts.\<close>

definition priv_getOutputAmount :: "Transaction \<Rightarrow> int \<times> Transaction" where
  "priv_getOutputAmount t =
     (case priv_outputAmount t of
        None \<Rightarrow>
          (let s = fold (\<lambda>out acc. js_add acc (satoshis out)) (outputs t) 0
           in (s, t\<lparr>priv_outputAmount := Some s\<rparr>))
      | Some s \<Rightarrow> (s, t))"

text \<open>
  The \<open>forEach\<close> of \<open>_getInputAmount\<close>, on the value of \<open>this._inputAmount\<close>, which
  starts at 0: it raises at the first input without its spent output, and
  \<open>this._inputAmount\<close> is then the total of the inputs before that one.
\<close>

fun inputAmount_loop :: "Input list \<Rightarrow> int \<Rightarrow> error \<times> int + int" where
  "inputAmount_loop [] acc = Inr acc"
| "inputAmount_loop (i # rest) acc =
     (case input_output i of
        None \<Rightarrow> Inl (MissingPreviousOutput, acc)
      | Some out \<Rightarrow> inputAmount_loop rest (js_add acc (satoshis out)))"

definition priv_getInputAmount :: "Transaction \<Rightarrow> error \<times> Transaction + int \<times> Transaction" where
  "priv_getInputAmount t =
     (case priv_inputAmount t of
        None \<Rightarrow>
          (case inputAmount_loop (inputs t) 0 of
             Inl (e, s) \<Rightarrow> Inl (e, t\<lparr>priv_inputAmount := Some s\<rparr>)
           | Inr s \<Rightarrow> Inr (s, t\<lparr>priv_inputAmount := Some s\<rparr>))
      | Some s \<Rightarrow> Inr (s, t))"

definition priv_getUnspentValue :: "Transaction \<Rightarrow> error \<times> Transaction + int \<times> Transaction" where
  "priv_getUnspentValue t =
     (case priv_getInputAmount t of
        Inl e \<Rightarrow> Inl e
      | Inr (i, t1) \<Rightarrow>
          (case priv_getOutputAmount t1 of (out, t2) \<Rightarrow> Inr (js_sub i out, t2)))"

definition isCoinbase :: "collab \<Rightarrow> Transaction \<Rightarrow> bool" where
  "isCoinbase c t \<longleftrightarrow> length (inputs t) = 1 \<and> Input_isNull c (inputs t ! 0)"

definition priv_estimateSize :: "collab \<Rightarrow> Transaction \<Rightarrow> int" where
  "priv_estimateSize c t =
     (let result = fold (\<lambda>inp acc. js_add acc (Input_estimateSize c inp)) (inputs t)
                     MAXIMUM_EXTRA_SIZE
      in fold (\<lambda>out acc. js_add (js_add acc (int (length (script out)))) 9)
           (outputs t) result)"

text \<open>The static \<open>Transaction._estimateFee(size, amountAvailable, feePerKb)\<close>.\<close>

definition Transaction_estimateFee :: "int \<Rightarrow> int \<Rightarrow> int option \<Rightarrow> int" where
  "Transaction_estimateFee sz amountAvailable feePerKb =
     (let fee = js_mul (Math_ceil_div sz 1000) (num_or feePerKb FEE_PER_KB);
          sz' = (if amountAvailable > fee then js_add sz CHANGE_OUTPUT_MAX_SIZE else sz)
      in js_mul (Math_ceil_div sz' 1000) (num_or feePerKb FEE_PER_KB))"

text \<open>The method \<open>Transaction.prototype._estimateFee()\<close>.\<close>

definition priv_estimateFee ::
  "collab \<Rightarrow> Transaction \<Rightarrow> error \<times> Transaction + int \<times> Transaction" where
  "priv_estimateFee c t =
     (let estimatedSize = priv_estimateSize c t
      in case priv_getUnspentValue t of
           Inl e \<Rightarrow> Inl e
         | Inr (available, t') \<Rightarrow>
             Inr (Transaction_estimateFee estimatedSize available (priv_feePerKb t'), t'))"

definition getFee ::
  "collab \<Rightarrow> Transaction \<Rightarrow> error \<times> Transaction + int \<times> Transaction" where
  "getFee c t =
     (if isCoinbase c t then Inr (0, t)
      else case priv_fee t of
             Some f \<Rightarrow> Inr (f, t)
           | None \<Rightarrow>
               (case priv_changeScript t of
                  None \<Rightarrow> priv_getUnspentValue t
                | Some cs \<Rightarrow> priv_estimateFee c t))"

section \<open>Change-output maintenance\<close>

text \<open>
  Modelled from the spec: \<open>Input.prototype.clearSignatures\<close> and its overrides are
  defined in \<open>input.js\<close> and its variants, which are not among the sources. The spec
  lists clear-signatures among the capabilities of an input, has it leave the input
  without accumulated signature material, and has the fallback (unclassified) variant
  signal an error on its signing-related capabilities.
\<close>

definition Input_clearSignatures :: "Input \<Rightarrow> error + Input" where
  "Input_clearSignatures i =
     (if clazz i = GenericInput then Inl AbstractMethodInvoked
      else Inr (i\<lparr>signatures := []\<rparr>))"

text \<open>
  \<open>_clearSignatures\<close>: \<open>forEach\<close> input, \<open>input.clearSignatures()\<close>. When an input
  raises, the inputs before it have been cleared.
\<close>

fun clearSignatures_each :: "Input list \<Rightarrow> error \<times> Input list + Input list" where
  "clearSignatures_each [] = Inr []"
| "clearSignatures_each (i # rest) =
     (case Input_clearSignatures i of
        Inl e \<Rightarrow> Inl (e, i # rest)
      | Inr i' \<Rightarrow>
          (case clearSignatures_each rest of
             Inl (e, rest') \<Rightarrow> Inl (e, i' # rest')
           | Inr rest' \<Rightarrow> Inr (i' # rest')))"

definition priv_clearSignatures :: "Transaction \<Rightarrow> error \<times> Transaction + Transaction" where
  "priv_clearSignatures t =
     (case clearSignatures_each (inputs t) of
        Inl (e, ins) \<Rightarrow> Inl (e, t\<lparr>inputs := ins\<rparr>)
      | Inr ins \<Rightarrow> Inr (t\<lparr>inputs := ins\<rparr>))"

text \<open>
  \<open>_removeOutput(index)\<close>: \<open>this.outputs[index]\<close> is \<open>undefined\<close> when the index is
  out of range, and then the filter \<open>val !== output\<close> keeps every output.
\<close>

definition priv_removeOutput :: "int \<Rightarrow> Transaction \<Rightarrow> Transaction" where
  "priv_removeOutput index t =
     (let outs =
        (if 0 \<le> index \<and> index < int (length (outputs t))
         then filter (\<lambda>val. oid val \<noteq> oid (outputs t ! nat index)) (outputs t)
         else outputs t)
      in t\<lparr>outputs := outs, priv_outputAmount := None\<rparr>)"

definition priv_addOutput :: "Output \<Rightarrow> Transaction \<Rightarrow> Transaction" where
  "priv_addOutput out t = t\<lparr>outputs := outputs t @ [out], priv_outputAmount := None\<rparr>"

text \<open>
  \<open>new Output(...)\<close> makes an object that is none of the outputs the transaction
  holds: its identity tag is above all of theirs.
\<close>

definition fresh_oid :: "Output list \<Rightarrow> nat" where
  "fresh_oid outs = fold (\<lambda>out m. max m (Suc (oid out))) outs 0"

text \<open>
  \<open>_updateChangeOutput\<close>. The change amount is positive where the change output is
  made, and the constructor of \<open>Output\<close> accepts it.
\<close>

definition priv_updateChangeOutput ::
  "collab \<Rightarrow> Transaction \<Rightarrow> error \<times> Transaction + Transaction" where
  "priv_updateChangeOutput c t =
     (case priv_changeScript t of
        None \<Rightarrow> Inr t
      | Some changeScript \<Rightarrow>
          (case priv_clearSignatures t of
             Inl e \<Rightarrow> Inl e
           | Inr t1 \<Rightarrow>
               (let t2 = (case priv_changeIndex t1 of
                            None \<Rightarrow> t1
                          | Some ci \<Rightarrow> priv_removeOutput ci t1)
                in case priv_getUnspentValue t2 of
                     Inl e \<Rightarrow> Inl e
                   | Inr (available, t3) \<Rightarrow>
                       (case getFee c t3 of
                          Inl e \<Rightarrow> Inl e
                        | Inr (fee, t4) \<Rightarrow>
                            (let changeAmount = js_sub available fee
                             in if changeAmount > 0
                                then Inr (priv_addOutput
                                       \<lparr>oid = fresh_oid (outputs t4),
                                        satoshis = changeAmount,
                                        script = changeScript\<rparr>
                                       (t4\<lparr>priv_changeIndex := Some (int (length (outputs t4)))\<rparr>))
                                else Inr (t4\<lparr>priv_changeIndex := None\<rparr>))))))"

section \<open>Public mutators\<close>

definition uncheckedAddInput :: "collab \<Rightarrow> Input \<Rightarrow> Transaction \<Rightarrow> error \<times> Transaction + Transaction" where
  "uncheckedAddInput c inp t =
     priv_updateChangeOutput c (t\<lparr>inputs := inputs t @ [inp], priv_inputAmount := None\<rparr>)"

text \<open>
  The \<open>outputScript\<close> argument of \<open>addInput\<close> is a \<open>Script\<close> object (always truthy) or
  a string (falsy when empty) that \<open>new Script\<close> parses.
\<close>

datatype ScriptArg = ScriptObject Script | ScriptString string

fun truthy_ScriptArg :: "ScriptArg option \<Rightarrow> bool" where
  "truthy_ScriptArg None = False"
| "truthy_ScriptArg (Some (ScriptObject s)) = True"
| "truthy_ScriptArg (Some (ScriptString s)) = (s \<noteq> [])"

fun toScript :: "collab \<Rightarrow> ScriptArg \<Rightarrow> error + Script" where
  "toScript c (ScriptObject s) = Inr s"
| "toScript c (ScriptString s) = Script_fromString c s"

text \<open>
  \<open>addInput\<close> assigns \<open>input.output\<close> on the caller's object; an entry of \<open>inputs\<close>
  that is this same object sees the assignment.
\<close>

definition addInput ::
  "collab \<Rightarrow> Input \<Rightarrow> ScriptArg option \<Rightarrow> int option \<Rightarrow> Transaction \<Rightarrow> error \<times> Transaction + Transaction" where
  "addInput c inp outputScript sats t =
     (if input_output inp = None \<and> (outputScript = None \<or> sats = None)
      then Inl (NeedMoreInfo, t)
      else if input_output inp = None \<and> truthy_ScriptArg outputScript \<and> sats \<noteq> None
      then (case toScript c (the outputScript) of
              Inl e \<Rightarrow> Inl (e, t)
            | Inr s \<Rightarrow>
                (case Output_new 0 s (the sats) of
                   Inl e \<Rightarrow> Inl (e, t)
                 | Inr out \<Rightarrow>
                     (let inp' = inp\<lparr>input_output := Some out\<rparr>
                      in uncheckedAddInput c inp'
                           (t\<lparr>inputs := map (\<lambda>x. if iid x = iid inp then inp' else x)
                                           (inputs t)\<rparr>))))
      else uncheckedAddInput c inp t)"

definition addOutput :: "collab \<Rightarrow> Output \<Rightarrow> Transaction \<Rightarrow> error \<times> Transaction + Transaction" where
  "addOutput c out t = priv_updateChangeOutput c (priv_addOutput out t)"

definition clearOutputs :: "collab \<Rightarrow> Transaction \<Rightarrow> error \<times> Transaction + Transaction" where
  "clearOutputs c t =
     (case priv_clearSignatures (t\<lparr>outputs := []\<rparr>) of
        Inl e \<Rightarrow> Inl e
      | Inr t1 \<Rightarrow>
          priv_updateChangeOutput c
            (t1\<lparr>priv_outputAmount := None, priv_changeIndex := None\<rparr>))"

definition removeOutput :: "collab \<Rightarrow> int \<Rightarrow> Transaction \<Rightarrow> error \<times> Transaction + Transaction" where
  "removeOutput c index t = priv_updateChangeOutput c (priv_removeOutput index t)"

text \<open>\<open>buffer.toString('hex')\<close>.\<close>

definition hexDigit :: "nat \<Rightarrow> char" where
  "hexDigit n = ''0123456789abcdef'' ! n"

definition toHex :: "bytes \<Rightarrow> string" where
  "toHex bs = concat (map (\<lambda>b. [hexDigit (unat b div 16), hexDigit (unat b mod 16)]) bs)"

text \<open>\<open>_.findIndex(array, predicate)\<close>: the first position that satisfies, or \<open>-1\<close>.\<close>

fun findIndex :: "('a \<Rightarrow> bool) \<Rightarrow> 'a list \<Rightarrow> int" where
  "findIndex P [] = -1"
| "findIndex P (x # xs) =
     (if P x then 0 else (let r = findIndex P xs in if r < 0 then -1 else r + 1))"

text \<open>
  The first argument of \<open>removeInput\<close> is a position (a number) or a transaction id in
  hexadecimal; the second is an output index or \<open>undefined\<close>.
\<close>

datatype TxIdArg = TxIdNumber int | TxIdString string

fun truthy_num :: "int option \<Rightarrow> bool" where
  "truthy_num None = False"
| "truthy_num (Some n) = (n \<noteq> 0)"

fun removeInput_index :: "TxIdArg \<Rightarrow> int option \<Rightarrow> Input list \<Rightarrow> int" where
  "removeInput_index (TxIdNumber n) outputIdx ins =
     (if \<not> truthy_num outputIdx then n else -1)"
| "removeInput_index (TxIdString txId) outputIdx ins =
     findIndex (\<lambda>inp. toHex (prevTxId inp) = txId \<and> Some (int (outputIndex inp)) = outputIdx) ins"

definition removeInput ::
  "collab \<Rightarrow> TxIdArg \<Rightarrow> int option \<Rightarrow> Transaction \<Rightarrow> error \<times> Transaction + Transaction" where
  "removeInput c txId outputIdx t =
     (let index = removeInput_index txId outputIdx (inputs t)
      in if index < 0 \<or> index \<ge> int (length (inputs t))
         then Inl (InvalidIndex index (length (inputs t)), t)
         else (let inp = inputs t ! nat index
               in priv_updateChangeOutput c
                    (t\<lparr>inputs := filter (\<lambda>x. iid x \<noteq> iid inp) (inputs t),
                       priv_inputAmount := None\<rparr>)))"

definition fee :: "collab \<Rightarrow> int \<Rightarrow> Transaction \<Rightarrow> error \<times> Transaction + Transaction" where
  "fee c amount t = priv_updateChangeOutput c (t\<lparr>priv_fee := Some amount\<rparr>)"

definition feePerKb :: "collab \<Rightarrow> int \<Rightarrow> Transaction \<Rightarrow> error \<times> Transaction + Transaction" where
  "feePerKb c amount t = priv_updateChangeOutput c (t\<lparr>priv_feePerKb := Some amount\<rparr>)"

definition change :: "collab \<Rightarrow> string \<Rightarrow> Transaction \<Rightarrow> error \<times> Transaction + Transaction" where
  "change c address t =
     (if address = [] then Inl (InvalidArgument ''Address is required'', t)
      else case Script_fromAddress c address of
             Inl e \<Rightarrow> Inl (e, t)
           | Inr s \<Rightarrow> priv_updateChangeOutput c (t\<lparr>priv_changeScript := Some s\<rparr>))"

section \<open>Serialization checks\<close>

record SerializeOpts =
  disableSmallFees :: bool
  disableLargeFees :: bool
  disableIsFullySigned :: bool
  disableDustOutputs :: bool
  disableMoreOutputThanInput :: bool

definition invalidSatoshis :: "collab \<Rightarrow> Transaction \<Rightarrow> bool" where
  "invalidSatoshis c t = list_ex (Output_invalidSatoshis c) (outputs t)"

definition priv_missingChange :: "Transaction \<Rightarrow> bool" where
  "priv_missingChange t \<longleftrightarrow> priv_changeScript t = None"

text \<open>
  \<open>_hasFeeError(opts, unspent)\<close>. The result is the error returned (\<open>None\<close> for
  \<open>undefined\<close>) and the transaction with its caches after the calls.
\<close>

definition priv_hasFeeError ::
  "collab \<Rightarrow> SerializeOpts \<Rightarrow> int \<Rightarrow> Transaction \<Rightarrow> error \<times> Transaction + error option \<times> Transaction" where
  "priv_hasFeeError c opts unspent t =
     (if priv_fee t \<noteq> None \<and> priv_fee t \<noteq> Some unspent
      then Inr (Some FeeError_Different, t)
      else case (if \<not> disableLargeFees opts
                 then (case priv_estimateFee c t of
                         Inl e \<Rightarrow> Inl e
                       | Inr (est, t1) \<Rightarrow>
                           (let maximumFee = Math_floor (js_mul FEE_SECURITY_MARGIN est)
                            in if unspent > maximumFee
                               then (if priv_missingChange t1
                                     then Inr (Some ChangeAddressMissing, t1)
                                     else Inr (Some FeeError_TooLarge, t1))
                               else Inr (None, t1)))
                 else Inr (None, t)) of
             Inl e \<Rightarrow> Inl e
           | Inr (Some err, t1) \<Rightarrow> Inr (Some err, t1)
           | Inr (None, t1) \<Rightarrow>
               (if \<not> disableSmallFees opts
                then (case priv_estimateFee c t1 of
                        Inl e \<Rightarrow> Inl e
                      | Inr (est, t2) \<Rightarrow>
                          (let minimumFee = Math_ceil_div est FEE_SECURITY_MARGIN
                           in if unspent < minimumFee
                              then Inr (Some FeeError_TooSmall, t2)
                              else Inr (None, t2)))
                else Inr (None, t1)))"

definition priv_hasDustOutputs :: "collab \<Rightarrow> SerializeOpts \<Rightarrow> Transaction \<Rightarrow> error option" where
  "priv_hasDustOutputs c opts t =
     (if \<not> disableDustOutputs opts
      then (let dustOutputs =
                  filter (\<lambda>out. satoshis out < DUST_AMOUNT \<and> \<not> Script_isDataOut c (script out))
                    (outputs t)
            in if length dustOutputs > 0 then Some DustOutputs else None)
      else None)"

text \<open>
  \<open>isFullySigned\<close> raises when an input still has the base class's method, which is
  the case of an input of the base class \<open>Input\<close> itself.
\<close>

definition isFullySigned :: "collab \<Rightarrow> Transaction \<Rightarrow> error + bool" where
  "isFullySigned c t =
     (if list_ex (\<lambda>inp. clazz inp = GenericInput) (inputs t)
      then Inl UnableToVerifySignature
      else Inr (list_all (\<lambda>x. x) (map (Input_isFullySigned c) (inputs t))))"

definition priv_isMissingSignatures ::
  "collab \<Rightarrow> SerializeOpts \<Rightarrow> Transaction \<Rightarrow> error + error option" where
  "priv_isMissingSignatures c opts t =
     (if \<not> disableIsFullySigned opts
      then (case isFullySigned c t of
              Inl e \<Rightarrow> Inl e
            | Inr b \<Rightarrow> Inr (if \<not> b then Some MissingSignatures else None))
      else Inr None)"

definition getSerializationError ::
  "collab \<Rightarrow> SerializeOpts \<Rightarrow> Transaction \<Rightarrow> error \<times> Transaction + error option \<times> Transaction" where
  "getSerializationError c opts t =
     (if invalidSatoshis c t then Inr (Some InvalidSatoshis, t)
      else case priv_getUnspentValue t of
             Inl e \<Rightarrow> Inl e
           | Inr (unspent, t1) \<Rightarrow>
               (case (if unspent < 0
                      then (if \<not> disableMoreOutputThanInput opts
                            then Inr (Some InvalidOutputAmountSum, t1)
                            else Inr (None, t1))
                      else priv_hasFeeError c opts unspent t1) of
                  Inl e \<Rightarrow> Inl e
                | Inr (Some unspentError, t2) \<Rightarrow> Inr (Some unspentError, t2)
                | Inr (None, t2) \<Rightarrow>
                    (case priv_hasDustOutputs c opts t2 of
                       Some err \<Rightarrow> Inr (Some err, t2)
                     | None \<Rightarrow>
                         (case priv_isMissingSignatures c opts t2 of
                            Inl e \<Rightarrow> Inl (e, t2)
                          | Inr r \<Rightarrow> Inr (r, t2)))))"

section \<open>Wire format and sanity verifier\<close>

definition toBuffer :: "collab \<Rightarrow> Transaction \<Rightarrow> bytes" where
  "toBuffer c t =
     BufferWriter_int32LE c (version t)
     @ BufferWriter_varintNum c (length (inputs t))
     @ concat (map (Input_toBuffer c) (inputs t))
     @ BufferWriter_varintNum c (length (outputs t))
     @ concat (map (Output_toBuffer c) (outputs t))
     @ BufferWriter_uint32LE c (nLockTime t)"

text \<open>The getter \<open>hash\<close>: the double hash of the encoding, reversed, in hexadecimal.\<close>

definition hash :: "collab \<Rightarrow> Transaction \<Rightarrow> string" where
  "hash c t = toHex (rev (Hash_sha256sha256 c (toBuffer c t)))"

text \<open>\<open>verify\<close> returns \<open>true\<close> or a string that describes the failure.\<close>

datatype VerifyResult = VerifyTrue | VerifyFailure string

text \<open>
  The loop over the outputs, with the running total \<open>valueoutbn\<close>. The big integer
  \<open>_satoshisBN\<close> of an output is its amount.
\<close>

fun verify_outputs :: "collab \<Rightarrow> Output list \<Rightarrow> int \<Rightarrow> string option" where
  "verify_outputs c [] valueoutbn = None"
| "verify_outputs c (out # rest) valueoutbn =
     (if Output_invalidSatoshis c out
      then Some ''Transaction output contains invalid amount''
      else if satoshis out > MAX_MONEY
      then Some ''Transaction output contains too high satoshi amount''
      else if valueoutbn + satoshis out > MAX_MONEY
      then Some ''Transaction output contains too high satoshi amount''
      else verify_outputs c rest (valueoutbn + satoshis out))"

text \<open>Decimal digits of a number, as a template literal prints an output index.\<close>

fun decimal :: "nat \<Rightarrow> string" where
  "decimal n =
     (if n < 10 then [''0123456789'' ! n]
      else decimal (n div 10) @ [''0123456789'' ! (n mod 10)])"

text \<open>The key \<open>`${prevTxId}:${outputIndex}`\<close> of an input in \<open>txinmap\<close>.\<close>

definition inputid :: "collab \<Rightarrow> Input \<Rightarrow> string" where
  "inputid c inp = Buffer_toString c (prevTxId inp) @ '':'' @ decimal (outputIndex inp)"

text \<open>The loop over the inputs; \<open>txinmap\<close> holds the keys seen so far.\<close>

fun verify_inputs :: "collab \<Rightarrow> Input list \<Rightarrow> string list \<Rightarrow> bool" where
  "verify_inputs c [] txinmap = False"
| "verify_inputs c (inp # rest) txinmap =
     (if inputid c inp \<in> set txinmap then True
      else verify_inputs c rest (inputid c inp # txinmap))"

definition verify :: "collab \<Rightarrow> Transaction \<Rightarrow> VerifyResult" where
  "verify c t =
     (if length (inputs t) = 0 then VerifyFailure ''transaction txins empty''
      else if length (outputs t) = 0 then VerifyFailure ''transaction txouts empty''
      else case verify_outputs c (outputs t) 0 of
             Some msg \<Rightarrow> VerifyFailure msg
           | None \<Rightarrow>
               (if int (length (toBuffer c t)) > MAX_BLOCK_SIZE
                then VerifyFailure ''Transaction over the maximum block size''
                else if verify_inputs c (inputs t) []
                then VerifyFailure ''Transaction contains duplicate input''
                else if isCoinbase c t
                then (let buf = scriptBuffer (inputs t ! 0)
                      in if length buf < 2 \<or> length buf > 100
                         then VerifyFailure ''Coinbase transaction script size invalid''
                         else VerifyTrue)
                else if length (filter (Input_isNull c) (inputs t)) > 0
                then VerifyFailure ''Transaction has null input''
                else VerifyTrue))"

section \<open>Signing\<close>

text \<open>\<open>hasAllUtxoInfo\<close> returns the array that \<open>map\<close> builds.\<close>

definition hasAllUtxoInfo :: "Transaction \<Rightarrow> bool list" where
  "hasAllUtxoInfo t = map (\<lambda>inp. input_output inp \<noteq> None) (inputs t)"

text \<open>
  The condition of \<open>$.checkState(condition, message)\<close> is taken by its truthiness, and
  an array, like every object, is truthy, whatever it holds.
\<close>

definition truthy_array :: "'a list \<Rightarrow> bool" where
  "truthy_array xs = True"

text \<open>\<open>privateKeys\<close> is one key or an array, whose elements are keys or arrays again.\<close>

datatype KeyArg = SingleKey bytes | KeyArray "KeyArg list"

fun getSignatures_loop ::
  "collab \<Rightarrow> Transaction \<Rightarrow> bytes \<Rightarrow> nat \<Rightarrow> Input list \<Rightarrow> nat
   \<Rightarrow> TransactionSignature list \<Rightarrow> error + TransactionSignature list" where
  "getSignatures_loop c t privKey st [] index results = Inr results"
| "getSignatures_loop c t privKey st (inp # rest) index results =
     (case Input_getSignatures c t privKey index st inp of
        Inl e \<Rightarrow> Inl e
      | Inr sigs \<Rightarrow> getSignatures_loop c t privKey st rest (Suc index) (results @ sigs))"

definition getSignatures ::
  "collab \<Rightarrow> bytes \<Rightarrow> nat option \<Rightarrow> Transaction \<Rightarrow> error + TransactionSignature list" where
  "getSignatures c privKey st t =
     (let st' = (case st of
                   None \<Rightarrow> or (Signature_SIGHASH_ALL c) (Signature_SIGHASH_FORKID c)
                 | Some n \<Rightarrow>
                     if n = 0 then or (Signature_SIGHASH_ALL c) (Signature_SIGHASH_FORKID c)
                     else n)
      in getSignatures_loop c t privKey st' (inputs t) 0 [])"

text \<open>
  \<open>applySignature\<close>: \<open>this.inputs[signature.inputIndex]\<close> is \<open>undefined\<close> out of range,
  and the method call on it raises a \<open>TypeError\<close>.
\<close>

definition applySignature ::
  "collab \<Rightarrow> TransactionSignature \<Rightarrow> Transaction \<Rightarrow> error \<times> Transaction + Transaction" where
  "applySignature c sg t =
     (if inputIndex sg < length (inputs t)
      then (case Input_addSignature c t sg (inputs t ! inputIndex sg) of
              Inl e \<Rightarrow> Inl (e, t)
            | Inr inp' \<Rightarrow> Inr (t\<lparr>inputs := (inputs t)[inputIndex sg := inp']\<rparr>))
      else Inl (TypeError, t))"

fun applySignature_each ::
  "collab \<Rightarrow> TransactionSignature list \<Rightarrow> Transaction \<Rightarrow> error \<times> Transaction + Transaction" where
  "applySignature_each c [] t = Inr t"
| "applySignature_each c (sg # rest) t =
     (case applySignature c sg t of
        Inl e \<Rightarrow> Inl e
      | Inr t' \<Rightarrow> applySignature_each c rest t')"

fun sign :: "collab \<Rightarrow> KeyArg \<Rightarrow> nat option \<Rightarrow> Transaction \<Rightarrow> error \<times> Transaction + Transaction"
  and sign_each :: "collab \<Rightarrow> KeyArg list \<Rightarrow> nat option \<Rightarrow> Transaction \<Rightarrow> error \<times> Transaction + Transaction"
where
  "sign c (KeyArray privateKeys) st t =
     (if \<not> truthy_array (hasAllUtxoInfo t)
      then Inl (InvalidState ''Cannot sign transaction because some input is not defined'', t)
      else sign_each c privateKeys st t)"
| "sign c (SingleKey privateKey) st t =
     (if \<not> truthy_array (hasAllUtxoInfo t)
      then Inl (InvalidState ''Cannot sign transaction because some input is not defined'', t)
      else case getSignatures c privateKey st t of
             Inl e \<Rightarrow> Inl (e, t)
           | Inr sigs \<Rightarrow> applySignature_each c sigs t)"
| "sign_each c [] st t = Inr t"
| "sign_each c (k # rest) st t =
     (case sign c k st t of
        Inl e \<Rightarrow> Inl e
      | Inr t' \<Rightarrow> sign_each c rest st t')"

section \<open>Reconstruction from a snapshot\<close>

text \<open>
  A snapshot is a plain object. Of an input it holds the fields the \<open>Input\<close>
  constructors copy, and for a multisig input the public keys and the threshold; the
  class of the input made from it is chosen by \<open>fromObject\<close>.
\<close>

record InputObject =
  obj_input :: Input
  obj_publicKeys :: "bytes list option"
  obj_threshold :: "int option"

record OutputObject =
  obj_satoshis :: int
  obj_script :: Script

record TransactionObject =
  obj_hash :: "string option"
  obj_version :: int
  obj_inputs :: "InputObject list"
  obj_outputs :: "OutputObject list"
  obj_nLockTime :: int
  obj_changeScript :: "Script option"
  obj_changeIndex :: "int option"
  obj_fee :: "int option"

text \<open>
  The state the constructor sets up before it reads its argument. The version and the
  lock time are not set yet; 0 stands for \<open>undefined\<close> there.
\<close>

definition Transaction_blank :: Transaction where
  "Transaction_blank =
     \<lparr>version = 0, nLockTime = 0, inputs = [], outputs = [],
      priv_inputAmount = None, priv_outputAmount = None,
      priv_changeScript = None, priv_changeIndex = None,
      priv_fee = None, priv_feePerKb = None\<rparr>"

definition CURRENT_VERSION :: int where
  "CURRENT_VERSION = 1"

definition DEFAULT_NLOCKTIME :: int where
  "DEFAULT_NLOCKTIME = 0"

text \<open>\<open>new Transaction()\<close>: the blank state, then \<open>_newTransaction\<close>.\<close>

definition priv_newTransaction :: "Transaction \<Rightarrow> Transaction" where
  "priv_newTransaction t = t\<lparr>version := CURRENT_VERSION, nLockTime := DEFAULT_NLOCKTIME\<rparr>"

definition Transaction_new :: Transaction where
  "Transaction_new = priv_newTransaction Transaction_blank"

definition fresh_iid :: "Input list \<Rightarrow> nat" where
  "fresh_iid ins = fold (\<lambda>inp m. max m (Suc (iid inp))) ins 0"

text \<open>A script given as a string or an optional script object: empty is falsy.\<close>

fun truthy_script :: "Script option \<Rightarrow> bool" where
  "truthy_script None = False"
| "truthy_script (Some s) = (s \<noteq> [])"

definition fromObject_input ::
  "collab \<Rightarrow> InputObject \<Rightarrow> Transaction \<Rightarrow> error \<times> Transaction + Transaction" where
  "fromObject_input c io t =
     (let inp = (obj_input io)\<lparr>iid := fresh_iid (inputs t)\<rparr>
      in if \<not> truthy_script (map_option script (input_output inp))
         then uncheckedAddInput c (inp\<lparr>clazz := GenericInput\<rparr>) t
         else (let s = script (the (input_output inp))
               in if Script_isPublicKeyHashOut c s
                  then addInput c (inp\<lparr>clazz := PublicKeyHash\<rparr>) None None t
                  else if Script_isScriptHashOut c s \<and> obj_publicKeys io \<noteq> None
                          \<and> truthy_num (obj_threshold io)
                  then addInput c (inp\<lparr>clazz := MultiSigScriptHash\<rparr>) None None t
                  else if Script_isPublicKeyOut c s
                  then addInput c (inp\<lparr>clazz := PublicKey\<rparr>) None None t
                  else Inl (UnsupportedScript, t)))"

fun fromObject_inputs ::
  "collab \<Rightarrow> InputObject list \<Rightarrow> Transaction \<Rightarrow> error \<times> Transaction + Transaction" where
  "fromObject_inputs c [] t = Inr t"
| "fromObject_inputs c (io # rest) t =
     (case fromObject_input c io t of
        Inl e \<Rightarrow> Inl e
      | Inr t' \<Rightarrow> fromObject_inputs c rest t')"

fun fromObject_outputs ::
  "collab \<Rightarrow> OutputObject list \<Rightarrow> Transaction \<Rightarrow> error \<times> Transaction + Transaction" where
  "fromObject_outputs c [] t = Inr t"
| "fromObject_outputs c (oo # rest) t =
     (case Output_new (fresh_oid (outputs t)) (obj_script oo) (obj_satoshis oo) of
        Inl e \<Rightarrow> Inl (e, t)
      | Inr out \<Rightarrow>
          (case addOutput c out t of
             Inl e \<Rightarrow> Inl e
           | Inr t' \<Rightarrow> fromObject_outputs c rest t'))"

fun truthy_string :: "string option \<Rightarrow> bool" where
  "truthy_string None = False"
| "truthy_string (Some s) = (s \<noteq> [])"

definition priv_checkConsistency ::
  "collab \<Rightarrow> string option \<Rightarrow> Transaction \<Rightarrow> error + unit" where
  "priv_checkConsistency c argHash t =
     (case (case priv_changeIndex t of
              None \<Rightarrow> Inr ()
            | Some ci \<Rightarrow>
                if priv_changeScript t = None
                then Inl (InvalidState ''Change script missing'')
                else if \<not> (0 \<le> ci \<and> ci < int (length (outputs t)))
                then Inl (InvalidState ''Change output missing'')
                else if script (outputs t ! nat ci) \<noteq> the (priv_changeScript t)
                then Inl (InvalidState
                            ''Script in argument does not match script in transaction'')
                else Inr ()) of
        Inl e \<Rightarrow> Inl e
      | Inr u \<Rightarrow>
          if truthy_string argHash \<and> the argHash \<noteq> hash c t
          then Inl (InvalidState ''Hash in argument does not match transaction hash'')
          else Inr ())"

definition fromObject ::
  "collab \<Rightarrow> TransactionObject \<Rightarrow> Transaction \<Rightarrow> error \<times> Transaction + Transaction" where
  "fromObject c arg t =
     (case fromObject_inputs c (obj_inputs arg) t of
        Inl e \<Rightarrow> Inl e
      | Inr t1 \<Rightarrow>
          (case fromObject_outputs c (obj_outputs arg) t1 of
             Inl e \<Rightarrow> Inl e
           | Inr t2 \<Rightarrow>
               (let t3 = (if truthy_num (obj_changeIndex arg)
                          then t2\<lparr>priv_changeIndex := obj_changeIndex arg\<rparr> else t2);
                    t4 = (if truthy_script (obj_changeScript arg)
                          then t3\<lparr>priv_changeScript := obj_changeScript arg\<rparr> else t3);
                    t5 = (if truthy_num (obj_fee arg)
                          then t4\<lparr>priv_fee := obj_fee arg\<rparr> else t4);
                    t6 = t5\<lparr>nLockTime := obj_nLockTime arg, version := obj_version arg\<rparr>
                in case priv_checkConsistency c (obj_hash arg) t6 of
                     Inl e \<Rightarrow> Inl (e, t6)
                   | Inr u \<Rightarrow> Inr t6)))"

section \<open>Deserialization\<close>

text \<open>
  \<open>fromBufferReader\<close> appends the inputs and outputs that the reader yields and sets the
  version and the lock time. The reader and the codecs of inputs and outputs are
  collaborators: what they yield is given here already parsed.
\<close>

definition fromBufferReader ::
  "int \<Rightarrow> Input list \<Rightarrow> Output list \<Rightarrow> int \<Rightarrow> Transaction \<Rightarrow> Transaction" where
  "fromBufferReader v ins outs n t =
     t\<lparr>version := v, inputs := inputs t @ ins, outputs := outputs t @ outs, nLockTime := n\<rparr>"

section \<open>Notions of the specification\<close>

text \<open>
  The totals of the amounts, as sums of integers. An input that does not carry its
  spent output adds nothing.
\<close>

definition inputTotal :: "Transaction \<Rightarrow> int" where
  "inputTotal t =
     (\<Sum>i\<leftarrow>inputs t. case input_output i of None \<Rightarrow> 0 | Some out \<Rightarrow> satoshis out)"

definition outputTotal :: "Transaction \<Rightarrow> int" where
  "outputTotal t = (\<Sum>out\<leftarrow>outputs t. satoshis out)"

text \<open>Every input carries its spent output.\<close>

definition hasSpentOutputs :: "Transaction \<Rightarrow> bool" where
  "hasSpentOutputs t \<longleftrightarrow> list_all (\<lambda>i. input_output i \<noteq> None) (inputs t)"

text \<open>
  The memoised totals, when present, are current: a value that \<open>_getInputAmount\<close> or
  \<open>_getOutputAmount\<close> would compute on the inputs and the outputs as they are now.
  (A memoised total stops being current when a call raises halfway through, and when
  \<open>fromBufferReader\<close> appends to a transaction whose totals are memoised.)
\<close>

definition input_cache_current :: "Transaction \<Rightarrow> bool" where
  "input_cache_current t \<longleftrightarrow>
     (case priv_inputAmount t of
        None \<Rightarrow> True
      | Some v \<Rightarrow> inputAmount_loop (inputs t) 0 = Inr v)"

definition output_cache_current :: "Transaction \<Rightarrow> bool" where
  "output_cache_current t \<longleftrightarrow>
     (case priv_outputAmount t of
        None \<Rightarrow> True
      | Some v \<Rightarrow> v = fold (\<lambda>out acc. js_add acc (satoshis out)) (outputs t) 0)"

definition caches_coherent :: "Transaction \<Rightarrow> bool" where
  "caches_coherent t \<longleftrightarrow> input_cache_current t \<and> output_cache_current t"

text \<open>
  The range in which the sums of the amounts are exact in double precision: the amounts
  are natural numbers, as the constructor of \<open>Output\<close> makes them, and no total exceeds
  \<open>2^53\<close>.
\<close>

definition input_amounts_exact :: "Transaction \<Rightarrow> bool" where
  "input_amounts_exact t \<longleftrightarrow>
     list_all (\<lambda>i. case input_output i of None \<Rightarrow> True | Some out \<Rightarrow> 0 \<le> satoshis out)
       (inputs t)
     \<and> inputTotal t \<le> 9007199254740992"

definition output_amounts_exact :: "Transaction \<Rightarrow> bool" where
  "output_amounts_exact t \<longleftrightarrow>
     list_all (\<lambda>out. 0 \<le> satoshis out) (outputs t) \<and> outputTotal t \<le> 9007199254740992"

definition amounts_exact :: "Transaction \<Rightarrow> bool" where
  "amounts_exact t \<longleftrightarrow> input_amounts_exact t \<and> output_amounts_exact t"

text \<open>The transaction with both totals memoised.\<close>

definition fill_caches :: "Transaction \<Rightarrow> Transaction" where
  "fill_caches t =
     t\<lparr>priv_inputAmount := Some (inputTotal t), priv_outputAmount := Some (outputTotal t)\<rparr>"

text \<open>The unspent value: the total of the inputs minus the total of the outputs.\<close>

definition unspentValue :: "Transaction \<Rightarrow> int" where
  "unspentValue t = inputTotal t - outputTotal t"

text \<open>
  The size estimate in the words of the specification: the fixed margin, each input's own
  estimate, and for each output the length of its script plus 9.
\<close>

definition estimatedSize_spec :: "collab \<Rightarrow> Transaction \<Rightarrow> int" where
  "estimatedSize_spec c t =
     MAXIMUM_EXTRA_SIZE + (\<Sum>i\<leftarrow>inputs t. Input_estimateSize c i)
       + (\<Sum>out\<leftarrow>outputs t. int (length (script out)) + 9)"

text \<open>
  The range in which the size estimate is exact: the estimates of the inputs are natural
  numbers and the size with the change-output allowance does not exceed \<open>2^53\<close>.
\<close>

definition sizes_exact :: "collab \<Rightarrow> Transaction \<Rightarrow> bool" where
  "sizes_exact c t \<longleftrightarrow>
     list_all (\<lambda>i. 0 \<le> Input_estimateSize c i) (inputs t)
     \<and> estimatedSize_spec c t + CHANGE_OUTPUT_MAX_SIZE \<le> 9007199254740992"

text \<open>
  The two-pass fee at a given rate: \<open>ceil(size / 1000) * rate\<close>, computed again from the size
  with the change-output allowance when the unspent value exceeds the first pass. The
  ceiling is the one of the reals.
\<close>

definition twoPassFee :: "int \<Rightarrow> collab \<Rightarrow> Transaction \<Rightarrow> int" where
  "twoPassFee rate c t =
     (let firstPass = \<lceil>real_of_int (estimatedSize_spec c t) / 1000\<rceil> * rate
      in if unspentValue t > firstPass
         then \<lceil>real_of_int (estimatedSize_spec c t + CHANGE_OUTPUT_MAX_SIZE) / 1000\<rceil> * rate
         else firstPass)"

text \<open>The rate as claim C4 words it: the override when set, 100,000 otherwise.\<close>

definition rate_as_claimed :: "Transaction \<Rightarrow> int" where
  "rate_as_claimed t = (case priv_feePerKb t of Some r \<Rightarrow> r | None \<Rightarrow> 100000)"

text \<open>
  The range in which the products of the fee estimate are exact: the larger of the two,
  in magnitude, does not exceed \<open>2^53\<close>.
\<close>

definition fee_exact :: "collab \<Rightarrow> Transaction \<Rightarrow> bool" where
  "fee_exact c t \<longleftrightarrow>
     \<bar>\<lceil>real_of_int (estimatedSize_spec c t + CHANGE_OUTPUT_MAX_SIZE) / 1000\<rceil>
        * rate_as_claimed t\<bar> \<le> 9007199254740992"

text \<open>No change script, no change index and no explicit fee are set.\<close>

definition no_change_state :: "Transaction \<Rightarrow> bool" where
  "no_change_state t \<longleftrightarrow>
     priv_changeScript t = None \<and> priv_changeIndex t = None \<and> priv_fee t = None"

text \<open>No input is of the base class (the unclassified fallback).\<close>

definition inputs_classified :: "Transaction \<Rightarrow> bool" where
  "inputs_classified t \<longleftrightarrow> list_all (\<lambda>i. clazz i \<noteq> GenericInput) (inputs t)"

definition clearedInputs :: "Input list \<Rightarrow> Input list" where
  "clearedInputs ins = map (\<lambda>i. i\<lparr>signatures := []\<rparr>) ins"

text \<open>The inputs cleared up to the first unclassified one.\<close>

definition partlyCleared :: "Input list \<Rightarrow> Input list" where
  "partlyCleared ins =
     clearedInputs (takeWhile (\<lambda>i. clazz i \<noteq> GenericInput) ins)
       @ dropWhile (\<lambda>i. clazz i \<noteq> GenericInput) ins"

text \<open>
  The estimated fee of the serialization checks: the static \<open>Transaction._estimateFee\<close>
  at the size estimate, the unspent value and the rate override.
\<close>

definition estimatedFee :: "collab \<Rightarrow> Transaction \<Rightarrow> int" where
  "estimatedFee c t =
     Transaction_estimateFee (priv_estimateSize c t) (unspentValue t) (priv_feePerKb t)"

text \<open>
  The value \<open>getFee()\<close> returns when every input carries its spent output: 0 for a
  coinbase, the explicit fee when set, the unspent value without a change script, the
  estimate otherwise.
\<close>

definition fee_value :: "collab \<Rightarrow> Transaction \<Rightarrow> int" where
  "fee_value c t =
     (if isCoinbase c t then 0
      else case priv_fee t of
             Some f \<Rightarrow> f
           | None \<Rightarrow>
               (case priv_changeScript t of
                  None \<Rightarrow> unspentValue t
                | Some cs \<Rightarrow> estimatedFee c t))"

text \<open>
  The transaction as \<open>clearOutputs\<close> has it before change maintenance runs: no output,
  the signatures cleared, the output total and the change index reset.
\<close>

definition emptied :: "Transaction \<Rightarrow> Transaction" where
  "emptied t =
     t\<lparr>outputs := [], inputs := clearedInputs (inputs t),
       priv_outputAmount := None, priv_changeIndex := None\<rparr>"

section \<open>The serialization checks in the words of the specification\<close>

text \<open>The first failure of a list of checks, in their order.\<close>

fun firstFailure :: "error option list \<Rightarrow> error option" where
  "firstFailure [] = None"
| "firstFailure (None # rest) = firstFailure rest"
| "firstFailure (Some e # rest) = Some e"

text \<open>
  The range in which the fee bounds are exact: 150 times the estimated fee does not
  exceed \<open>2^53\<close> in magnitude.
\<close>

definition margin_exact :: "collab \<Rightarrow> Transaction \<Rightarrow> bool" where
  "margin_exact c t \<longleftrightarrow> \<bar>150 * estimatedFee c t\<bar> \<le> 9007199254740992"

text \<open>Check 1: an output amount is syntactically invalid.\<close>

definition check_invalidSatoshis :: "collab \<Rightarrow> Transaction \<Rightarrow> error option" where
  "check_invalidSatoshis c t =
     (if list_ex (Output_invalidSatoshis c) (outputs t) then Some InvalidSatoshis else None)"

text \<open>Check 2: the unspent value is negative, unless disabled.\<close>

definition check_negativeUnspent :: "SerializeOpts \<Rightarrow> Transaction \<Rightarrow> error option" where
  "check_negativeUnspent opts t =
     (if unspentValue t < 0 \<and> \<not> disableMoreOutputThanInput opts
      then Some InvalidOutputAmountSum else None)"

text \<open>
  Check 3, the fee bounds: an explicit fee that differs from the unspent value; else an
  unspent value above 150 times the estimated fee, unless disabled, reported as a missing
  change address when no change script is configured; else an unspent value below the
  estimated fee divided by 150, unless disabled.
\<close>

definition check_feeBounds :: "collab \<Rightarrow> SerializeOpts \<Rightarrow> Transaction \<Rightarrow> error option" where
  "check_feeBounds c opts t =
     (if priv_fee t \<noteq> None \<and> priv_fee t \<noteq> Some (unspentValue t)
      then Some FeeError_Different
      else if \<not> disableLargeFees opts \<and> unspentValue t > 150 * estimatedFee c t
      then Some (if priv_changeScript t = None then ChangeAddressMissing
                 else FeeError_TooLarge)
      else if \<not> disableSmallFees opts \<and>
              real_of_int (unspentValue t) < real_of_int (estimatedFee c t) / 150
      then Some FeeError_TooSmall
      else None)"

text \<open>Check 4: an output below the dust threshold that carries no data, unless disabled.\<close>

definition check_dust :: "collab \<Rightarrow> SerializeOpts \<Rightarrow> Transaction \<Rightarrow> error option" where
  "check_dust c opts t =
     (if \<not> disableDustOutputs opts \<and>
         list_ex (\<lambda>out. satoshis out < 546 \<and> \<not> Script_isDataOut c (script out)) (outputs t)
      then Some DustOutputs else None)"

text \<open>Check 5: an input that is not fully signed, unless disabled.\<close>

definition check_signatures :: "collab \<Rightarrow> SerializeOpts \<Rightarrow> Transaction \<Rightarrow> error option" where
  "check_signatures c opts t =
     (if \<not> disableIsFullySigned opts \<and> \<not> list_all (Input_isFullySigned c) (inputs t)
      then Some MissingSignatures else None)"

text \<open>The pipeline as claim C5 words it: the five checks, in order.\<close>

definition serializationError_claimed ::
  "collab \<Rightarrow> SerializeOpts \<Rightarrow> Transaction \<Rightarrow> error option" where
  "serializationError_claimed c opts t =
     firstFailure [check_invalidSatoshis c t, check_negativeUnspent opts t,
                   check_feeBounds c opts t, check_dust c opts t, check_signatures c opts t]"

text \<open>The pipeline of the code: the fee bounds are looked at only when the unspent value
  is not negative.\<close>

definition serializationError_amended ::
  "collab \<Rightarrow> SerializeOpts \<Rightarrow> Transaction \<Rightarrow> error option" where
  "serializationError_amended c opts t =
     firstFailure [check_invalidSatoshis c t, check_negativeUnspent opts t,
                   (if unspentValue t < 0 then None else check_feeBounds c opts t),
                   check_dust c opts t, check_signatures c opts t]"

text \<open>
  When \<open>getSerializationError\<close> raises instead of returning: an input lacks its spent
  output (once check 1 has passed), or check 5 is reached and an input is unclassified.
\<close>

definition serializationError_raised ::
  "collab \<Rightarrow> SerializeOpts \<Rightarrow> Transaction \<Rightarrow> error option" where
  "serializationError_raised c opts t =
     (if check_invalidSatoshis c t \<noteq> None then None
      else if \<not> hasSpentOutputs t then Some MissingPreviousOutput
      else if firstFailure [check_negativeUnspent opts t,
                            (if unspentValue t < 0 then None else check_feeBounds c opts t),
                            check_dust c opts t] = None
              \<and> \<not> disableIsFullySigned opts \<and> \<not> inputs_classified t
      then Some UnableToVerifySignature
      else None)"

section \<open>The sanity verifier in the words of the specification\<close>

text \<open>The failure string of the first failing check of a list, or success.\<close>

fun firstFailing :: "(bool \<times> string) list \<Rightarrow> VerifyResult" where
  "firstFailing [] = VerifyTrue"
| "firstFailing ((failed, msg) # rest) =
     (if failed then VerifyFailure msg else firstFailing rest)"

text \<open>The running totals of a list of amounts, from a starting total.\<close>

fun runningTotals :: "int \<Rightarrow> int list \<Rightarrow> int list" where
  "runningTotals tot [] = []"
| "runningTotals tot (x # xs) = (tot + x) # runningTotals (tot + x) xs"

text \<open>A single amount or a running total exceeds the maximum-money bound.\<close>

definition amountTooHigh :: "Output list \<Rightarrow> bool" where
  "amountTooHigh outs \<longleftrightarrow>
     list_ex (\<lambda>out. satoshis out > 21000000 * 100000000) outs \<or>
     list_ex (\<lambda>tot. tot > 21000000 * 100000000) (runningTotals 0 (map satoshis outs))"

text \<open>Two inputs, at different positions, have the same \<open>(prevTxId, outputIndex)\<close> pair.\<close>

definition duplicateInput :: "Transaction \<Rightarrow> bool" where
  "duplicateInput t \<longleftrightarrow> \<not> distinct (map (\<lambda>i. (prevTxId i, outputIndex i)) (inputs t))"

text \<open>
  The code looks for a duplicate among the key texts of the inputs. The texts tell the
  pairs of a transaction apart when inputs with the same text have the same pair.
\<close>

definition keys_faithful :: "collab \<Rightarrow> Transaction \<Rightarrow> bool" where
  "keys_faithful c t \<longleftrightarrow>
     list_all (\<lambda>i. list_all (\<lambda>j. inputid c i = inputid c j \<longrightarrow>
                                   prevTxId i = prevTxId j \<and> outputIndex i = outputIndex j)
                         (inputs t))
       (inputs t)"

definition encodedSize :: "collab \<Rightarrow> Transaction \<Rightarrow> int" where
  "encodedSize c t = int (length (toBuffer c t))"

text \<open>The checks that follow the checks of the outputs, in order.\<close>

definition laterChecks :: "collab \<Rightarrow> Transaction \<Rightarrow> (bool \<times> string) list" where
  "laterChecks c t =
     [(encodedSize c t > 1000000, ''Transaction over the maximum block size''),
      (duplicateInput t, ''Transaction contains duplicate input''),
      (isCoinbase c t \<and> (length (scriptBuffer (inputs t ! 0)) < 2
                            \<or> length (scriptBuffer (inputs t ! 0)) > 100),
       ''Coinbase transaction script size invalid''),
      (\<not> isCoinbase c t \<and> list_ex (Input_isNull c) (inputs t),
       ''Transaction has null input'')]"

text \<open>
  The verifier as claim C6 words it: any invalid amount is one check, any amount or
  running total above the bound is the next.
\<close>

definition verify_claimed :: "collab \<Rightarrow> Transaction \<Rightarrow> VerifyResult" where
  "verify_claimed c t =
     firstFailing
       ([(inputs t = [], ''transaction txins empty''),
         (outputs t = [], ''transaction txouts empty''),
         (list_ex (Output_invalidSatoshis c) (outputs t),
          ''Transaction output contains invalid amount''),
         (amountTooHigh (outputs t),
          ''Transaction output contains too high satoshi amount'')]
        @ laterChecks c t)"

text \<open>
  The checks of the outputs as the code makes them: the first output, in order, that
  is invalid, exceeds the bound or brings the running total above it, decides, with the
  invalid-amount string when it is invalid and the too-high string otherwise.
\<close>

definition outputFailure :: "collab \<Rightarrow> Output list \<Rightarrow> string option" where
  "outputFailure c outs =
     (case find (\<lambda>(out, tot). Output_invalidSatoshis c out
                   \<or> satoshis out > 21000000 * 100000000
                   \<or> tot > 21000000 * 100000000)
             (zip outs (runningTotals 0 (map satoshis outs))) of
        None \<Rightarrow> None
      | Some (out, tot) \<Rightarrow>
          Some (if Output_invalidSatoshis c out
                then ''Transaction output contains invalid amount''
                else ''Transaction output contains too high satoshi amount''))"

definition verify_amended :: "collab \<Rightarrow> Transaction \<Rightarrow> VerifyResult" where
  "verify_amended c t =
     (if inputs t = [] then VerifyFailure ''transaction txins empty''
      else if outputs t = [] then VerifyFailure ''transaction txouts empty''
      else case outputFailure c (outputs t) of
             Some msg \<Rightarrow> VerifyFailure msg
           | None \<Rightarrow> firstFailing (laterChecks c t))"

section \<open>Sample collaborators and transactions\<close>

text \<open>
  One instance of the collaborators, on which the model is evaluated at concrete
  transactions: the null input is the all-zero id with index \<open>0xffffffff\<close>, an
  input is fully signed when it holds a signature, a classified input asked for its
  signatures checks first that it carries its spent output (the state check of the
  \<open>getSignatures\<close> of every input class) and a public-key-hash input then signs with
  every key it is offered, an amount is invalid when negative or above \<open>2^53 - 1\<close>,
  scripts are recognised by their first byte or their length.
\<close>

definition sample_collab :: collab where
  "sample_collab =
     \<lparr>Input_isNull = (\<lambda>i. prevTxId i = replicate 32 0 \<and> outputIndex i = 4294967295),
      Input_estimateSize = (\<lambda>i. 107),
      Input_isFullySigned = (\<lambda>i. signatures i \<noteq> []),
      Input_getSignatures = (\<lambda>t key index st i.
         if clazz i = GenericInput then Inl AbstractMethodInvoked
         else if input_output i = None then Inl (InvalidState [])
         else if clazz i = PublicKeyHash
         then Inr [\<lparr>inputIndex = index, sigtype = st, publicKey = key, signature = key\<rparr>]
         else Inr []),
      Input_addSignature = (\<lambda>t sg i. Inr (i\<lparr>signatures := signatures i @ [sg]\<rparr>)),
      Input_toBuffer = (\<lambda>i. prevTxId i @ scriptBuffer i),
      Output_invalidSatoshis = (\<lambda>out. satoshis out < 0 \<or> satoshis out > 9007199254740991),
      Output_toBuffer = (\<lambda>out. script out),
      Script_isDataOut = (\<lambda>s. take 1 s = [106]),
      Script_isPublicKeyHashOut = (\<lambda>s. length s = 25),
      Script_isScriptHashOut = (\<lambda>s. length s = 23),
      Script_isPublicKeyOut = (\<lambda>s. length s = 35),
      Script_fromAddress = (\<lambda>a. Inr (map (\<lambda>ch. of_nat (of_char ch)) a)),
      Script_fromString = (\<lambda>a. Inr (map (\<lambda>ch. of_nat (of_char ch)) a)),
      BufferWriter_int32LE = (\<lambda>n. [0, 0, 0, 0]),
      BufferWriter_uint32LE = (\<lambda>n. [0, 0, 0, 0]),
      BufferWriter_varintNum = (\<lambda>n. [of_nat n]),
      Buffer_toString = toHex,
      Hash_sha256sha256 = (\<lambda>b. b),
      Signature_SIGHASH_ALL = 1,
      Signature_SIGHASH_FORKID = 64\<rparr>"

text \<open>A public-key-hash input that spends 1000 satoshis.\<close>

definition sample_input :: Input where
  "sample_input =
     \<lparr>iid = 0, clazz = PublicKeyHash, prevTxId = [1, 2, 3], outputIndex = 0,
      sequenceNumber = 4294967295, scriptBuffer = [],
      input_output = Some \<lparr>oid = 0, satoshis = 1000, script = [118, 169]\<rparr>,
      signatures = []\<rparr>"

text \<open>An output of 100 satoshis.\<close>

definition sample_output :: Output where
  "sample_output = \<lparr>oid = 0, satoshis = 100, script = [118, 169, 20]\<rparr>"

text \<open>One input of 1000 satoshis, one output of 100, nothing else set.\<close>

definition sample_tx :: Transaction where
  "sample_tx = Transaction_new\<lparr>inputs := [sample_input], outputs := [sample_output]\<rparr>"

text \<open>The sample transaction with a change script and a fee rate set to 0.\<close>

definition tx_zero_rate :: Transaction where
  "tx_zero_rate = sample_tx\<lparr>priv_changeScript := Some [1, 2, 3], priv_feePerKb := Some 0\<rparr>"

text \<open>The sample transaction with an explicit fee of 50 and no change script.\<close>

definition tx_fixed_fee :: Transaction where
  "tx_fixed_fee = sample_tx\<lparr>priv_fee := Some 50\<rparr>"

text \<open>A signature descriptor for input 0.\<close>

definition sample_signature :: TransactionSignature where
  "sample_signature = \<lparr>inputIndex = 0, sigtype = 65, publicKey = [7], signature = [7]\<rparr>"

text \<open>The sample transaction, signed: its input holds a signature. No change script.\<close>

definition tx_signed :: Transaction where
  "tx_signed = sample_tx\<lparr>inputs := [sample_input\<lparr>signatures := [sample_signature]\<rparr>]\<rparr>"

text \<open>A transaction whose only input does not carry its spent output.\<close>

definition tx_no_utxo :: Transaction where
  "tx_no_utxo =
     Transaction_new\<lparr>inputs := [sample_input\<lparr>input_output := None\<rparr>],
                      outputs := [sample_output]\<rparr>"

text \<open>
  A snapshot with one output, change index 0, a change script and a fee of 0, and one
  with two outputs, change index 1 and a fee of 7.
\<close>

definition snapshot_zero :: TransactionObject where
  "snapshot_zero =
     \<lparr>obj_hash = None, obj_version = 1, obj_inputs = [],
      obj_outputs = [\<lparr>obj_satoshis = 5, obj_script = [9]\<rparr>],
      obj_nLockTime = 0, obj_changeScript = Some [9],
      obj_changeIndex = Some 0, obj_fee = Some 0\<rparr>"

definition snapshot_nonzero :: TransactionObject where
  "snapshot_nonzero =
     \<lparr>obj_hash = None, obj_version = 1, obj_inputs = [],
      obj_outputs = [\<lparr>obj_satoshis = 5, obj_script = [8]\<rparr>,
                     \<lparr>obj_satoshis = 6, obj_script = [9]\<rparr>],
      obj_nLockTime = 0, obj_changeScript = Some [9],
      obj_changeIndex = Some 1, obj_fee = Some 7\<rparr>"

text \<open>What \<open>fromObject\<close> makes of the two snapshots.\<close>

definition reconstructed_zero :: Transaction where
  "reconstructed_zero =
     Transaction_blank\<lparr>version := 1,
       outputs := [\<lparr>oid = 0, satoshis = 5, script = [9]\<rparr>],
       priv_changeScript := Some [9]\<rparr>"

definition reconstructed_nonzero :: Transaction where
  "reconstructed_nonzero =
     Transaction_blank\<lparr>version := 1,
       outputs := [\<lparr>oid = 0, satoshis = 5, script = [8]\<rparr>,
                   \<lparr>oid = 1, satoshis = 6, script = [9]\<rparr>],
       priv_changeScript := Some [9], priv_changeIndex := Some 1, priv_fee := Some 7\<rparr>"

text \<open>
  A funded transaction: one input of 1,000,000 satoshis and the sample output. The same
  with a change script, and with the change output that change maintenance adds.
\<close>

definition funded_input :: Input where
  "funded_input =
     sample_input\<lparr>input_output := Some \<lparr>oid = 0, satoshis = 1000000, script = [118, 169]\<rparr>\<rparr>"

definition funded_tx :: Transaction where
  "funded_tx = Transaction_new\<lparr>inputs := [funded_input], outputs := [sample_output]\<rparr>"

definition funded_change_tx :: Transaction where
  "funded_change_tx =
     funded_tx\<lparr>outputs := [sample_output, \<lparr>oid = 1, satoshis = 899900, script = [97]\<rparr>],
       priv_inputAmount := Some 1000000,
       priv_changeScript := Some [97], priv_changeIndex := Some 1\<rparr>"

text \<open>
  A signed transaction that spends more than its input: input 1000, output 2000. The
  options disable the outputs-exceed-inputs check only.
\<close>

definition tx_overspent :: Transaction where
  "tx_overspent =
     tx_signed\<lparr>outputs := [\<lparr>oid = 0, satoshis = 2000, script = [118, 169, 20]\<rparr>]\<rparr>"

definition opts_allow_overspend :: SerializeOpts where
  "opts_allow_overspend =
     \<lparr>disableSmallFees = False, disableLargeFees = False, disableIsFullySigned = False,
      disableDustOutputs = False, disableMoreOutputThanInput = True\<rparr>"

definition opts_default :: SerializeOpts where
  "opts_default =
     \<lparr>disableSmallFees = False, disableLargeFees = False, disableIsFullySigned = False,
      disableDustOutputs = False, disableMoreOutputThanInput = False\<rparr>"

text \<open>
  A transaction whose first output is valid but above the maximum-money bound and whose
  second output is above \<open>2^53 - 1\<close>, hence invalid (such amounts come out of the
  decoding of a transaction).
\<close>

definition tx_high_then_invalid :: Transaction where
  "tx_high_then_invalid =
     sample_tx\<lparr>outputs := [\<lparr>oid = 0, satoshis = 2100000000000001, script = [118]\<rparr>,
                            \<lparr>oid = 1, satoshis = 9007199254740992, script = [118]\<rparr>]\<rparr>"

text \<open>What \<open>removeOutput(0)\<close> makes of the funded transaction with its change output.\<close>

definition funded_two_change_tx :: Transaction where
  "funded_two_change_tx =
     funded_change_tx\<lparr>outputs := [\<lparr>oid = 1, satoshis = 899900, script = [97]\<rparr>,
                                    \<lparr>oid = 2, satoshis = 100, script = [97]\<rparr>]\<rparr>"


text \<open>
  Two inputs of \<open>2^53 - 1\<close> satoshis and of 2, and one output of \<open>2^53 - 1\<close>: the inputs
  add up to \<open>2^53 + 1\<close>, which is not a double.
\<close>

definition large_input :: Input where
  "large_input =
     sample_input\<lparr>input_output :=
       Some \<lparr>oid = 0, satoshis = 9007199254740991, script = [118, 169]\<rparr>\<rparr>"

definition small_input :: Input where
  "small_input =
     sample_input\<lparr>iid := 1, prevTxId := [4, 5, 6],
       input_output := Some \<lparr>oid = 0, satoshis = 2, script = [118, 169]\<rparr>\<rparr>"

definition tx_large :: Transaction where
  "tx_large =
     Transaction_new\<lparr>inputs := [large_input, small_input],
       outputs := [\<lparr>oid = 0, satoshis = 9007199254740991, script = [118, 169, 20]\<rparr>]\<rparr>"

text \<open>The same inputs, with a change script and an explicit fee of \<open>2^53\<close>.\<close>

definition tx_large_change :: Transaction where
  "tx_large_change =
     Transaction_new\<lparr>inputs := [large_input, small_input],
       priv_changeScript := Some [97], priv_fee := Some 9007199254740992\<rparr>"

text \<open>
  The funded transaction with a change script, its input being of the base class
  \<open>Input\<close> (as \<open>uncheckedAddInput(new Input(...))\<close> adds it).
\<close>

definition tx_generic_change :: Transaction where
  "tx_generic_change =
     Transaction_new\<lparr>inputs := [funded_input\<lparr>clazz := GenericInput\<rparr>],
       outputs := [sample_output], priv_changeScript := Some [97]\<rparr>"

text \<open>
  The sample transaction after \<open>getFee()\<close> has memoised its totals (1000 and 100), and
  the same after \<open>fromBufferReader\<close> has appended an output of 50 satoshis to it.
\<close>

definition tx_memoised :: Transaction where
  "tx_memoised = sample_tx\<lparr>priv_inputAmount := Some 1000, priv_outputAmount := Some 100\<rparr>"

definition tx_stale :: Transaction where
  "tx_stale =
     tx_memoised\<lparr>outputs := [sample_output, \<lparr>oid = 1, satoshis = 50, script = [118]\<rparr>]\<rparr>"

text \<open>
  Eight inputs, of \<open>2^53 - 1\<close>, 2 and six times 0 satoshis, and one output of
  \<open>2^53 - 100000\<close> satoshis with a script of 60 bytes: the size estimate is 951, the
  inputs add up to \<open>2^53 + 1\<close>, and to \<open>2^53\<close> in double precision.
\<close>

definition zero_input :: Input where
  "zero_input =
     sample_input\<lparr>iid := 2, prevTxId := [7, 8, 9],
       input_output := Some \<lparr>oid = 0, satoshis = 0, script = [118, 169]\<rparr>\<rparr>"

definition tx_large_threshold :: Transaction where
  "tx_large_threshold =
     Transaction_new\<lparr>inputs := [large_input, small_input, zero_input, zero_input,
                                   zero_input, zero_input, zero_input, zero_input],
       outputs := [\<lparr>oid = 0, satoshis = 9007199254640992, script = replicate 60 0\<rparr>]\<rparr>"

text \<open>
  Inputs of \<open>2^53 - 1\<close> and 4 satoshis, outputs of \<open>2^53 - 1\<close> and 5: the outputs exceed
  the inputs by one satoshi, and both add up to \<open>2^53 + 4\<close> in double precision. The
  input is signed.
\<close>

definition four_input :: Input where
  "four_input =
     sample_input\<lparr>iid := 1, prevTxId := [4, 5, 6], signatures := [sample_signature],
       input_output := Some \<lparr>oid = 0, satoshis = 4, script = [118, 169]\<rparr>\<rparr>"

definition tx_large_overspent :: Transaction where
  "tx_large_overspent =
     Transaction_new\<lparr>inputs := [large_input\<lparr>signatures := [sample_signature]\<rparr>, four_input],
       outputs := [\<lparr>oid = 0, satoshis = 9007199254740991, script = [118, 169, 20]\<rparr>,
                   \<lparr>oid = 1, satoshis = 5, script = [118, 169, 20]\<rparr>]\<rparr>"

text \<open>
  Nineteen times the sample input and the sample output, with a fee rate of \<open>2^53 - 1\<close>:
  the size estimate is 2071, three thousands of bytes begun.
\<close>

definition tx_large_rate :: Transaction where
  "tx_large_rate =
     Transaction_new\<lparr>inputs := [sample_input, sample_input, sample_input, sample_input,
         sample_input, sample_input, sample_input, sample_input, sample_input, sample_input,
         sample_input, sample_input, sample_input, sample_input, sample_input, sample_input,
         sample_input, sample_input, sample_input],
       outputs := [sample_output], priv_feePerKb := Some 9007199254740991\<rparr>"

section \<open>Numbers: where the arithmetic is exact\<close>

declare binade.simps [simp del]

lemma binade_small: "n < 9007199254740992 \<Longrightarrow> binade n = 0"
  by (simp add: binade.simps)

lemma binade_limit: "binade 9007199254740992 = 1"
  by (simp add: binade.simps[of 9007199254740992] binade_small)

lemma dbl_exact: "\<bar>x\<bar> \<le> 9007199254740992 \<Longrightarrow> dbl x = x"
proof (cases "\<bar>x\<bar> = 9007199254740992")
  case True
  then consider "x = 9007199254740992" | "x = - 9007199254740992" by linarith
  then show ?thesis
    by cases (simp_all add: dbl_def binade_limit Let_def)
next
  case False
  assume "\<bar>x\<bar> \<le> 9007199254740992"
  with False have "nat \<bar>x\<bar> < 9007199254740992" by linarith
  then show ?thesis
    by (simp add: dbl_def binade_small Let_def mult_sgn_abs)
qed

lemma js_add_exact: "\<bar>a + b\<bar> \<le> 9007199254740992 \<Longrightarrow> js_add a b = a + b"
  by (simp add: js_add_def dbl_exact)

lemma js_sub_exact: "\<bar>a - b\<bar> \<le> 9007199254740992 \<Longrightarrow> js_sub a b = a - b"
  by (simp add: js_sub_def dbl_exact)

lemma js_mul_exact: "\<bar>a * b\<bar> \<le> 9007199254740992 \<Longrightarrow> js_mul a b = a * b"
  by (simp add: js_mul_def dbl_exact)

lemmas js_exact = js_add_exact js_sub_exact js_mul_exact

text \<open>Above \<open>2^53\<close> the odd integers are not doubles: \<open>2^53 + 1\<close> rounds to \<open>2^53\<close>.\<close>

lemma dbl_above: "dbl 9007199254740993 = 9007199254740992"
  by (simp add: dbl_def binade.simps[of 9007199254740993] binade_small Let_def)

lemma fold_js_add_exact:
  "list_all (\<lambda>x. 0 \<le> f x) xs \<Longrightarrow> 0 \<le> a \<Longrightarrow>
   a + (\<Sum>x\<leftarrow>xs. f x) \<le> 9007199254740992 \<Longrightarrow>
   fold (\<lambda>x acc. js_add acc (f x)) xs a = a + (\<Sum>x\<leftarrow>xs. f x)"
proof (induction xs arbitrary: a)
  case Nil
  then show ?case by simp
next
  case (Cons x xs)
  have nn: "0 \<le> (\<Sum>y\<leftarrow>xs. f y)"
    using Cons.prems(1) by (auto intro!: sum_list_nonneg simp: list_all_iff)
  have fx: "0 \<le> f x"
    using Cons.prems(1) by simp
  have e: "js_add a (f x) = a + f x"
    using Cons.prems(2,3) nn fx by (intro js_add_exact) simp
  show ?case
    using Cons.IH[of "a + f x"] Cons.prems nn fx by (simp add: e)
qed

text \<open>\<open>2^53 + 3\<close> rounds to \<open>2^53 + 4\<close>, which is a double.\<close>

lemma dbl_above3: "dbl 9007199254740995 = 9007199254740996"
  by (simp add: dbl_def binade.simps[of 9007199254740995] binade_small Let_def)

lemma dbl_above4: "dbl 9007199254740996 = 9007199254740996"
  by (simp add: dbl_def binade.simps[of 9007199254740996] binade_small Let_def)

text \<open>From \<open>2^54\<close> on the doubles are the multiples of 4.\<close>

lemma dbl_product: "dbl 27021597764222973 = 27021597764222972"
  by (simp add: dbl_def binade.simps[of 27021597764222973] binade.simps[of 13510798882111486]
      binade_small Let_def)

section \<open>Amounts and fee: the getters compute the sums\<close>

lemma inputTotal_nonneg: "input_amounts_exact t \<Longrightarrow> 0 \<le> inputTotal t"
  unfolding input_amounts_exact_def inputTotal_def
  by (auto intro!: sum_list_nonneg simp: list_all_iff split: option.splits)

lemma outputTotal_nonneg: "output_amounts_exact t \<Longrightarrow> 0 \<le> outputTotal t"
  unfolding output_amounts_exact_def outputTotal_def
  by (auto intro!: sum_list_nonneg simp: list_all_iff)

lemma outputs_fold_exact:
  "output_amounts_exact t \<Longrightarrow>
   fold (\<lambda>out acc. js_add acc (satoshis out)) (outputs t) 0 = outputTotal t"
  using fold_js_add_exact[of satoshis "outputs t" 0]
  by (simp add: output_amounts_exact_def outputTotal_def)

lemma inputAmount_loop_all:
  "list_all (\<lambda>i. input_output i \<noteq> None) xs \<Longrightarrow>
   list_all (\<lambda>i. case input_output i of None \<Rightarrow> True | Some out \<Rightarrow> 0 \<le> satoshis out) xs \<Longrightarrow>
   0 \<le> acc \<Longrightarrow>
   acc + (\<Sum>i\<leftarrow>xs. case input_output i of None \<Rightarrow> 0 | Some out \<Rightarrow> satoshis out)
     \<le> 9007199254740992 \<Longrightarrow>
   inputAmount_loop xs acc =
     Inr (acc + (\<Sum>i\<leftarrow>xs. case input_output i of None \<Rightarrow> 0 | Some out \<Rightarrow> satoshis out))"
proof (induction xs arbitrary: acc)
  case Nil
  then show ?case by simp
next
  case (Cons i xs)
  from Cons.prems(1) obtain out where out: "input_output i = Some out"
    by auto
  have nn: "0 \<le> (\<Sum>j\<leftarrow>xs. case input_output j of None \<Rightarrow> 0 | Some out \<Rightarrow> satoshis out)"
    using Cons.prems(2) by (auto intro!: sum_list_nonneg simp: list_all_iff split: option.splits)
  have s: "0 \<le> satoshis out"
    using Cons.prems(2) out by simp
  have e: "js_add acc (satoshis out) = acc + satoshis out"
    using Cons.prems(3,4) nn s out by (intro js_add_exact) simp
  show ?case
    using Cons.IH[of "acc + satoshis out"] Cons.prems nn s out by (simp add: e)
qed

lemma inputAmount_loop_missing:
  "\<not> list_all (\<lambda>i. input_output i \<noteq> None) xs \<Longrightarrow>
   \<exists>s. inputAmount_loop xs acc = Inl (MissingPreviousOutput, s)"
  by (induction xs arbitrary: acc) (auto split: option.splits)

lemma inputAmount_loop_eq:
  assumes "hasSpentOutputs t" "input_amounts_exact t"
  shows "inputAmount_loop (inputs t) 0 = Inr (inputTotal t)"
  using inputAmount_loop_all[of "inputs t" 0] assms
  by (simp add: hasSpentOutputs_def input_amounts_exact_def inputTotal_def)

lemma Math_ceil_div_ceiling: "Math_ceil_div a 1000 = \<lceil>real_of_int a / 1000\<rceil>"
proof -
  have "\<lceil>real_of_int a / real_of_int 1000\<rceil> = - (- a div 1000)"
    by (rule ceiling_divide_eq_div)
  then show ?thesis by (simp add: Math_ceil_div_def)
qed

lemma getOutputAmount_result:
  "output_cache_current t \<Longrightarrow> output_amounts_exact t \<Longrightarrow>
   priv_getOutputAmount t = (outputTotal t, t\<lparr>priv_outputAmount := Some (outputTotal t)\<rparr>)"
  by (auto simp: output_cache_current_def priv_getOutputAmount_def outputs_fold_exact Let_def
      split: option.splits)

lemma getInputAmount_result:
  "input_cache_current t \<Longrightarrow> hasSpentOutputs t \<Longrightarrow> input_amounts_exact t \<Longrightarrow>
   priv_getInputAmount t = Inr (inputTotal t, t\<lparr>priv_inputAmount := Some (inputTotal t)\<rparr>)"
  by (auto simp: input_cache_current_def priv_getInputAmount_def inputAmount_loop_eq
      split: option.splits)

lemma getInputAmount_missing:
  assumes "input_cache_current t" "\<not> hasSpentOutputs t"
  shows "\<exists>u. priv_getInputAmount t = Inl (MissingPreviousOutput, u)"
proof -
  obtain s where s: "inputAmount_loop (inputs t) 0 = Inl (MissingPreviousOutput, s)"
    using inputAmount_loop_missing[of "inputs t" 0] assms(2)
    by (auto simp: hasSpentOutputs_def)
  then have "priv_inputAmount t = None"
    using assms(1) by (auto simp: input_cache_current_def split: option.splits)
  then show ?thesis
    using s by (simp add: priv_getInputAmount_def)
qed

lemma getUnspentValue_result:
  assumes "caches_coherent t" "hasSpentOutputs t" "amounts_exact t"
  shows "priv_getUnspentValue t = Inr (unspentValue t, fill_caches t)"
proof -
  have i: "priv_getInputAmount t
           = Inr (inputTotal t, t\<lparr>priv_inputAmount := Some (inputTotal t)\<rparr>)"
    using assms by (intro getInputAmount_result) (simp_all add: caches_coherent_def amounts_exact_def)
  have oc: "output_cache_current (t\<lparr>priv_inputAmount := Some (inputTotal t)\<rparr>)"
    using assms(1)
    by (auto simp: caches_coherent_def output_cache_current_def split: option.splits)
  have oe: "output_amounts_exact (t\<lparr>priv_inputAmount := Some (inputTotal t)\<rparr>)"
    using assms(3) by (simp add: amounts_exact_def output_amounts_exact_def outputTotal_def)
  have ot: "outputTotal (t\<lparr>priv_inputAmount := Some (inputTotal t)\<rparr>) = outputTotal t"
    by (simp add: outputTotal_def)
  have "0 \<le> inputTotal t" "0 \<le> outputTotal t"
    using assms(3) inputTotal_nonneg[of t] outputTotal_nonneg[of t]
    by (simp_all add: amounts_exact_def)
  moreover have "inputTotal t \<le> 9007199254740992" "outputTotal t \<le> 9007199254740992"
    using assms(3)
    by (simp_all add: amounts_exact_def input_amounts_exact_def output_amounts_exact_def)
  ultimately have b: "\<bar>inputTotal t - outputTotal t\<bar> \<le> 9007199254740992"
    by linarith
  show ?thesis
    using getOutputAmount_result[OF oc oe] i b
    by (simp add: priv_getUnspentValue_def fill_caches_def unspentValue_def ot js_sub_exact)
qed

lemma getUnspentValue_missing:
  assumes "caches_coherent t" "\<not> hasSpentOutputs t"
  shows "\<exists>u. priv_getUnspentValue t = Inl (MissingPreviousOutput, u)"
  using getInputAmount_missing[OF _ assms(2)] assms(1)
  by (auto simp: priv_getUnspentValue_def caches_coherent_def)

lemma fold_js_add2_exact:
  "0 \<le> a \<Longrightarrow>
   a + (\<Sum>out\<leftarrow>outs. int (length (script out)) + 9) \<le> 9007199254740992 \<Longrightarrow>
   fold (\<lambda>out acc. js_add (js_add acc (int (length (script out)))) 9) outs a
     = a + (\<Sum>out\<leftarrow>outs. int (length (script out)) + 9)"
proof (induction outs arbitrary: a)
  case Nil
  then show ?case by simp
next
  case (Cons out outs)
  have nn: "0 \<le> (\<Sum>out\<leftarrow>outs. int (length (script out)) + 9)"
    by (auto intro!: sum_list_nonneg)
  have e1: "js_add a (int (length (script out))) = a + int (length (script out))"
    using Cons.prems nn by (intro js_add_exact) simp
  have e2: "js_add (a + int (length (script out))) 9 = a + int (length (script out)) + 9"
    using Cons.prems nn by (intro js_add_exact) simp
  show ?case
    using Cons.IH[of "a + int (length (script out)) + 9"] Cons.prems nn
    by (simp add: e1 e2)
qed

lemma outputs_size_nonneg: "0 \<le> (\<Sum>out\<leftarrow>outs. int (length (script out)) + 9)"
  by (auto intro!: sum_list_nonneg)

lemma inputs_size_nonneg:
  "list_all (\<lambda>i. 0 \<le> Input_estimateSize c i) ins \<Longrightarrow> 0 \<le> (\<Sum>i\<leftarrow>ins. Input_estimateSize c i)"
  by (auto intro!: sum_list_nonneg simp: list_all_iff)

lemma estimatedSize_nonneg: "sizes_exact c t \<Longrightarrow> 0 \<le> estimatedSize_spec c t"
  using inputs_size_nonneg[of c "inputs t"] outputs_size_nonneg[of "outputs t"]
  by (simp add: sizes_exact_def estimatedSize_spec_def MAXIMUM_EXTRA_SIZE_def)

lemma estimateSize_eq:
  assumes "sizes_exact c t"
  shows "priv_estimateSize c t = estimatedSize_spec c t"
proof -
  have i: "0 \<le> (\<Sum>i\<leftarrow>inputs t. Input_estimateSize c i)"
    using assms by (simp add: sizes_exact_def inputs_size_nonneg)
  have o: "0 \<le> (\<Sum>out\<leftarrow>outputs t. int (length (script out)) + 9)"
    by (rule outputs_size_nonneg)
  have b: "estimatedSize_spec c t \<le> 9007199254740992"
    using assms by (simp add: sizes_exact_def CHANGE_OUTPUT_MAX_SIZE_def)
  have 1: "fold (\<lambda>inp acc. js_add acc (Input_estimateSize c inp)) (inputs t) MAXIMUM_EXTRA_SIZE
           = MAXIMUM_EXTRA_SIZE + (\<Sum>i\<leftarrow>inputs t. Input_estimateSize c i)"
    using assms i o b
    by (intro fold_js_add_exact)
      (simp_all add: sizes_exact_def estimatedSize_spec_def MAXIMUM_EXTRA_SIZE_def)
  have 2: "fold (\<lambda>out acc. js_add (js_add acc (int (length (script out)))) 9) (outputs t)
             (MAXIMUM_EXTRA_SIZE + (\<Sum>i\<leftarrow>inputs t. Input_estimateSize c i))
           = MAXIMUM_EXTRA_SIZE + (\<Sum>i\<leftarrow>inputs t. Input_estimateSize c i)
             + (\<Sum>out\<leftarrow>outputs t. int (length (script out)) + 9)"
    using i b
    by (intro fold_js_add2_exact)
      (simp_all add: estimatedSize_spec_def MAXIMUM_EXTRA_SIZE_def)
  show ?thesis
    by (simp add: priv_estimateSize_def Let_def 1 2 estimatedSize_spec_def)
qed

lemma ceiling_1000_mono:
  "0 \<le> (sz::int) \<Longrightarrow> 0 \<le> \<lceil>real_of_int sz / 1000\<rceil> \<and>
     \<lceil>real_of_int sz / 1000\<rceil> \<le> \<lceil>real_of_int (sz + 62) / 1000\<rceil>"
  by (auto intro!: ceiling_mono simp: divide_right_mono)

lemma Transaction_estimateFee_exact:
  assumes "0 \<le> sz" "sz + CHANGE_OUTPUT_MAX_SIZE \<le> 9007199254740992"
    and "\<bar>\<lceil>real_of_int (sz + CHANGE_OUTPUT_MAX_SIZE) / 1000\<rceil> * r\<bar> \<le> 9007199254740992"
    and "r = num_or fk FEE_PER_KB"
  shows "Transaction_estimateFee sz a fk =
     (let firstPass = \<lceil>real_of_int sz / 1000\<rceil> * r
      in if a > firstPass then \<lceil>real_of_int (sz + CHANGE_OUTPUT_MAX_SIZE) / 1000\<rceil> * r
         else firstPass)"
proof -
  let ?c1 = "\<lceil>real_of_int sz / 1000\<rceil>"
  let ?c2 = "\<lceil>real_of_int (sz + CHANGE_OUTPUT_MAX_SIZE) / 1000\<rceil>"
  have m: "0 \<le> ?c1" "?c1 \<le> ?c2"
    using ceiling_1000_mono[OF assms(1)] by (simp_all add: CHANGE_OUTPUT_MAX_SIZE_def)
  have c2: "0 \<le> ?c2"
    using m by linarith
  have "\<bar>?c1 * r\<bar> = ?c1 * \<bar>r\<bar>"
    using m(1) by (simp only: abs_mult abs_of_nonneg)
  also have "\<dots> \<le> ?c2 * \<bar>r\<bar>"
    using m(2) by (intro mult_right_mono) simp_all
  also have "\<dots> = \<bar>?c2 * r\<bar>"
    using c2 by (simp only: abs_mult abs_of_nonneg)
  finally have b1: "\<bar>?c1 * r\<bar> \<le> 9007199254740992"
    using assms(3) by linarith
  have p1: "js_mul (Math_ceil_div sz 1000) r = ?c1 * r"
    using b1 by (simp add: Math_ceil_div_ceiling js_mul_exact)
  have p2: "js_mul (Math_ceil_div (sz + CHANGE_OUTPUT_MAX_SIZE) 1000) r = ?c2 * r"
    using assms(3) by (simp add: Math_ceil_div_ceiling js_mul_exact)
  have s: "js_add sz CHANGE_OUTPUT_MAX_SIZE = sz + CHANGE_OUTPUT_MAX_SIZE"
    using assms(1,2) by (intro js_add_exact) (simp add: CHANGE_OUTPUT_MAX_SIZE_def)
  show ?thesis
    unfolding Transaction_estimateFee_def assms(4)[symmetric] Let_def p1 s
    by (simp add: p1 p2)
qed

lemma num_or_rate:
  "priv_feePerKb t \<noteq> Some 0 \<Longrightarrow> num_or (priv_feePerKb t) FEE_PER_KB = rate_as_claimed t"
  by (cases "priv_feePerKb t") (simp_all add: rate_as_claimed_def FEE_PER_KB_def)

lemma estimatedFee_twoPass:
  assumes "sizes_exact c t" "fee_exact c t" "priv_feePerKb t \<noteq> Some 0"
  shows "estimatedFee c t = twoPassFee (rate_as_claimed t) c t"
proof -
  have "Transaction_estimateFee (estimatedSize_spec c t) (unspentValue t) (priv_feePerKb t) =
     (let firstPass = \<lceil>real_of_int (estimatedSize_spec c t) / 1000\<rceil> * rate_as_claimed t
      in if unspentValue t > firstPass
         then \<lceil>real_of_int (estimatedSize_spec c t + CHANGE_OUTPUT_MAX_SIZE) / 1000\<rceil>
                * rate_as_claimed t
         else firstPass)"
    using assms estimatedSize_nonneg[OF assms(1)] num_or_rate[OF assms(3)]
    by (intro Transaction_estimateFee_exact) (simp_all add: sizes_exact_def fee_exact_def)
  then show ?thesis
    by (simp add: estimatedFee_def estimateSize_eq[OF assms(1)] twoPassFee_def)
qed

lemma estimateFee_result:
  assumes "caches_coherent t" "hasSpentOutputs t" "amounts_exact t"
  shows "priv_estimateFee c t = Inr (estimatedFee c t, fill_caches t)"
  using getUnspentValue_result[OF assms]
  by (simp add: priv_estimateFee_def Let_def estimatedFee_def fill_caches_def)

lemma estimateFee_missing:
  assumes "caches_coherent t" "\<not> hasSpentOutputs t"
  shows "\<exists>u. priv_estimateFee c t = Inl (MissingPreviousOutput, u)"
  using getUnspentValue_missing[OF assms]
  by (auto simp: priv_estimateFee_def Let_def)

lemma fill_caches_fields [simp]:
  "inputs (fill_caches t) = inputs t"
  "outputs (fill_caches t) = outputs t"
  "priv_fee (fill_caches t) = priv_fee t"
  "priv_feePerKb (fill_caches t) = priv_feePerKb t"
  "priv_changeScript (fill_caches t) = priv_changeScript t"
  "priv_changeIndex (fill_caches t) = priv_changeIndex t"
  by (simp_all add: fill_caches_def)

lemma fill_caches_totals [simp]:
  "inputTotal (fill_caches t) = inputTotal t"
  "outputTotal (fill_caches t) = outputTotal t"
  "unspentValue (fill_caches t) = unspentValue t"
  "hasSpentOutputs (fill_caches t) = hasSpentOutputs t"
  "amounts_exact (fill_caches t) = amounts_exact t"
  by (simp_all add: inputTotal_def outputTotal_def unspentValue_def hasSpentOutputs_def
      amounts_exact_def input_amounts_exact_def output_amounts_exact_def)

lemma fill_caches_idem [simp]: "fill_caches (fill_caches t) = fill_caches t"
  by (simp add: fill_caches_def inputTotal_def outputTotal_def)

lemma fill_caches_coherent:
  "hasSpentOutputs t \<Longrightarrow> amounts_exact t \<Longrightarrow> caches_coherent (fill_caches t)"
  by (simp add: caches_coherent_def input_cache_current_def output_cache_current_def
      fill_caches_def inputAmount_loop_eq outputs_fold_exact amounts_exact_def)

lemma fill_caches_estimatedFee [simp]: "estimatedFee c (fill_caches t) = estimatedFee c t"
  by (simp add: estimatedFee_def priv_estimateSize_def)

lemma fill_caches_fee_value [simp]: "fee_value c (fill_caches t) = fee_value c t"
  by (simp add: fee_value_def isCoinbase_def cong: option.case_cong)

lemma getFee_result:
  assumes "caches_coherent t" "hasSpentOutputs t" "amounts_exact t"
  shows "getFee c t =
     Inr (fee_value c t, if isCoinbase c t \<or> priv_fee t \<noteq> None then t else fill_caches t)"
  using assms
  by (auto simp: getFee_def fee_value_def getUnspentValue_result estimateFee_result
      split: option.splits)

lemma getFee_filled:
  assumes "hasSpentOutputs t" "amounts_exact t"
  shows "getFee c (fill_caches t) = Inr (fee_value c t, fill_caches t)"
  using getFee_result[OF fill_caches_coherent[OF assms], of c] assms by simp

section \<open>Evaluating the samples\<close>

lemmas sample_defs = sample_tx_def sample_input_def sample_output_def sample_collab_def
  Transaction_new_def Transaction_blank_def priv_newTransaction_def CURRENT_VERSION_def
  DEFAULT_NLOCKTIME_def

lemmas const_defs = MAXIMUM_EXTRA_SIZE_def CHANGE_OUTPUT_MAX_SIZE_def FEE_PER_KB_def
  DUST_AMOUNT_def FEE_SECURITY_MARGIN_def MAX_MONEY_def MAX_BLOCK_SIZE_def

lemmas range_defs = caches_coherent_def input_cache_current_def output_cache_current_def
  amounts_exact_def input_amounts_exact_def output_amounts_exact_def sizes_exact_def
  fee_exact_def inputTotal_def outputTotal_def unspentValue_def estimatedSize_spec_def
  rate_as_claimed_def hasSpentOutputs_def inputs_classified_def

lemma sample_coherent: "caches_coherent sample_tx"
  by (simp add: range_defs sample_defs)

lemma sample_spent: "hasSpentOutputs sample_tx"
  by (simp add: hasSpentOutputs_def sample_defs)

lemma sample_amounts: "amounts_exact sample_tx"
  by (simp add: range_defs sample_defs)

lemma sample_size: "estimatedSize_spec sample_collab sample_tx = 145"
  by (simp add: estimatedSize_spec_def sample_defs const_defs)

lemma sample_unspent: "unspentValue sample_tx = 900"
  by (simp add: unspentValue_def inputTotal_def outputTotal_def sample_defs)

lemma sample_not_coinbase: "\<not> isCoinbase sample_collab sample_tx"
  by (simp add: isCoinbase_def sample_defs)

section \<open>Without a change script, change maintenance does nothing\<close>

lemma updateChangeOutput_no_script:
  "priv_changeScript t = None \<Longrightarrow> priv_updateChangeOutput c t = Inr t"
  by (simp add: priv_updateChangeOutput_def)

lemma uncheckedAddInput_no_change:
  "no_change_state t \<Longrightarrow> uncheckedAddInput c inp t = Inr t' \<Longrightarrow> no_change_state t'"
  by (auto simp: no_change_state_def uncheckedAddInput_def updateChangeOutput_no_script)

lemma addInput_no_change:
  "no_change_state t \<Longrightarrow> addInput c inp sa sats t = Inr t' \<Longrightarrow> no_change_state t'"
  by (auto simp: no_change_state_def addInput_def uncheckedAddInput_def
      updateChangeOutput_no_script Let_def split: if_splits sum.splits)

lemma addOutput_no_change:
  "no_change_state t \<Longrightarrow> addOutput c out t = Inr t' \<Longrightarrow> no_change_state t'"
  by (auto simp: no_change_state_def addOutput_def priv_addOutput_def
      updateChangeOutput_no_script)

lemma fromObject_input_no_change:
  "no_change_state t \<Longrightarrow> fromObject_input c io t = Inr t' \<Longrightarrow> no_change_state t'"
  unfolding fromObject_input_def Let_def
  by (auto split: if_splits dest: uncheckedAddInput_no_change addInput_no_change)

lemma fromObject_inputs_no_change:
  "no_change_state t \<Longrightarrow> fromObject_inputs c ios t = Inr t' \<Longrightarrow> no_change_state t'"
proof (induction ios arbitrary: t)
  case Nil
  then show ?case by simp
next
  case (Cons io rest)
  then show ?case
    by (auto split: sum.splits dest: fromObject_input_no_change)
qed

lemma fromObject_outputs_no_change:
  "no_change_state t \<Longrightarrow> fromObject_outputs c oos t = Inr t' \<Longrightarrow> no_change_state t'"
proof (induction oos arbitrary: t)
  case Nil
  then show ?case by simp
next
  case (Cons oo rest)
  then show ?case
    by (auto split: sum.splits dest: addOutput_no_change)
qed

section \<open>Change maintenance: the signatures, the inputs and what is raised\<close>

lemma clearSignatures_each_eq:
  "clearSignatures_each ins =
     (if list_all (\<lambda>i. clazz i \<noteq> GenericInput) ins then Inr (clearedInputs ins)
      else Inl (AbstractMethodInvoked, partlyCleared ins))"
  by (induction ins)
    (auto simp: clearedInputs_def partlyCleared_def Input_clearSignatures_def)

lemma clearSignatures_result:
  "priv_clearSignatures t =
     (if inputs_classified t then Inr (t\<lparr>inputs := clearedInputs (inputs t)\<rparr>)
      else Inl (AbstractMethodInvoked, t\<lparr>inputs := partlyCleared (inputs t)\<rparr>))"
  by (simp add: priv_clearSignatures_def inputs_classified_def clearSignatures_each_eq)

lemma inputAmount_loop_cleared:
  "inputAmount_loop (clearedInputs ins) acc = inputAmount_loop ins acc"
  by (induction ins arbitrary: acc) (auto simp: clearedInputs_def split: option.splits)

lemma inputTotal_cleared [simp]:
  "(\<Sum>i\<leftarrow>clearedInputs ins. case input_output i of None \<Rightarrow> 0 | Some out \<Rightarrow> satoshis out) =
   (\<Sum>i\<leftarrow>ins. case input_output i of None \<Rightarrow> 0 | Some out \<Rightarrow> satoshis out)"
  by (induction ins) (auto simp: clearedInputs_def)

lemma list_all_cleared [simp]:
  "list_all (\<lambda>i. input_output i \<noteq> None) (clearedInputs ins) =
   list_all (\<lambda>i. input_output i \<noteq> None) ins"
  by (induction ins) (auto simp: clearedInputs_def)

lemma nonneg_cleared [simp]:
  "list_all (\<lambda>i. case input_output i of None \<Rightarrow> True | Some out \<Rightarrow> 0 \<le> satoshis out)
     (clearedInputs ins) =
   list_all (\<lambda>i. case input_output i of None \<Rightarrow> True | Some out \<Rightarrow> 0 \<le> satoshis out) ins"
  by (induction ins) (auto simp: clearedInputs_def)

lemma classified_cleared [simp]:
  "list_all (\<lambda>i. clazz i \<noteq> GenericInput) (clearedInputs ins) =
   list_all (\<lambda>i. clazz i \<noteq> GenericInput) ins"
  by (induction ins) (auto simp: clearedInputs_def)

lemma clearedInputs_idem [simp]: "clearedInputs (clearedInputs ins) = clearedInputs ins"
  by (induction ins) (auto simp: clearedInputs_def)

lemma length_cleared [simp]: "length (clearedInputs ins) = length ins"
  by (simp add: clearedInputs_def)

lemma getInputAmount_inputs:
  "priv_getInputAmount t = Inr (v, t') \<Longrightarrow> inputs t' = inputs t"
  by (auto simp: priv_getInputAmount_def split: option.splits sum.splits)

lemma inputAmount_loop_error:
  "inputAmount_loop xs acc = Inl (e, s) \<Longrightarrow> e = MissingPreviousOutput"
  by (induction xs arbitrary: acc) (auto split: option.splits)

lemma getInputAmount_error:
  "priv_getInputAmount t = Inl (e, u) \<Longrightarrow> e = MissingPreviousOutput"
  by (auto simp: priv_getInputAmount_def dest: inputAmount_loop_error
      split: option.splits sum.splits)

lemma getUnspentValue_inputs:
  "priv_getUnspentValue t = Inr (v, t') \<Longrightarrow> inputs t' = inputs t"
  by (auto simp: priv_getUnspentValue_def priv_getOutputAmount_def Let_def
      dest!: getInputAmount_inputs split: option.splits sum.splits prod.splits)

lemma getUnspentValue_error:
  "priv_getUnspentValue t = Inl (e, u) \<Longrightarrow> e = MissingPreviousOutput"
  by (auto simp: priv_getUnspentValue_def dest: getInputAmount_error
      split: sum.splits prod.splits)

lemma getFee_inputs:
  "getFee c t = Inr (v, t') \<Longrightarrow> inputs t' = inputs t"
  by (auto simp: getFee_def priv_estimateFee_def Let_def dest: getUnspentValue_inputs
      split: if_splits option.splits sum.splits prod.splits)

lemma getFee_error:
  "getFee c t = Inl (e, u) \<Longrightarrow> e = MissingPreviousOutput"
  by (auto simp: getFee_def priv_estimateFee_def Let_def dest: getUnspentValue_error
      split: if_splits option.splits sum.splits prod.splits)

lemma updateChangeOutput_inputs:
  assumes "priv_updateChangeOutput c t = Inr t'" "priv_changeScript t = Some cs"
  shows "inputs t' = clearedInputs (inputs t)"
proof -
  from assms have cl: "inputs_classified t"
    by (auto simp: priv_updateChangeOutput_def clearSignatures_result split: if_splits)
  define t2 where "t2 =
     (case priv_changeIndex t of
        None \<Rightarrow> t\<lparr>inputs := clearedInputs (inputs t)\<rparr>
      | Some ci \<Rightarrow> priv_removeOutput ci (t\<lparr>inputs := clearedInputs (inputs t)\<rparr>))"
  have i2: "inputs t2 = clearedInputs (inputs t)"
    by (simp add: t2_def priv_removeOutput_def Let_def split: option.splits)
  from assms cl obtain a t3 f t4 where
    u: "priv_getUnspentValue t2 = Inr (a, t3)" and g: "getFee c t3 = Inr (f, t4)"
    and r: "inputs t' = inputs t4"
    by (auto simp: priv_updateChangeOutput_def clearSignatures_result
        t2_def Let_def priv_addOutput_def split: sum.splits prod.splits if_splits)
  show ?thesis
    using getUnspentValue_inputs[OF u] getFee_inputs[OF g] r i2 by simp
qed

lemma updateChangeOutput_error:
  assumes "priv_updateChangeOutput c t = Inl (e, u)"
  shows "e = AbstractMethodInvoked \<or> e = MissingPreviousOutput"
  using assms
  by (auto simp: priv_updateChangeOutput_def clearSignatures_result Let_def
      dest: getUnspentValue_error getFee_error
      split: option.splits sum.splits prod.splits if_splits)

section \<open>The emptied transaction\<close>

lemma emptied_fields [simp]:
  "inputs (emptied t) = clearedInputs (inputs t)"
  "outputs (emptied t) = []"
  "priv_changeScript (emptied t) = priv_changeScript t"
  "priv_changeIndex (emptied t) = None"
  "priv_fee (emptied t) = priv_fee t"
  "priv_feePerKb (emptied t) = priv_feePerKb t"
  by (simp_all add: emptied_def)

lemma emptied_coherent: "input_cache_current t \<Longrightarrow> caches_coherent (emptied t)"
  by (auto simp: caches_coherent_def input_cache_current_def output_cache_current_def
      emptied_def inputAmount_loop_cleared split: option.splits)

lemma emptied_spent [simp]: "hasSpentOutputs (emptied t) = hasSpentOutputs t"
  unfolding hasSpentOutputs_def emptied_fields by (rule list_all_cleared)

lemma emptied_classified [simp]: "inputs_classified (emptied t) = inputs_classified t"
  unfolding inputs_classified_def emptied_fields by (rule classified_cleared)

lemma emptied_inputTotal [simp]: "inputTotal (emptied t) = inputTotal t"
  by (simp add: inputTotal_def)

lemma emptied_unspentValue [simp]: "unspentValue (emptied t) = inputTotal t"
  by (simp add: unspentValue_def outputTotal_def)

lemma emptied_amounts: "input_amounts_exact t \<Longrightarrow> amounts_exact (emptied t)"
  by (simp add: amounts_exact_def input_amounts_exact_def output_amounts_exact_def
      outputTotal_def)

lemma emptied_cleared: "(emptied t)\<lparr>inputs := clearedInputs (inputs (emptied t))\<rparr> = emptied t"
  by (simp add: emptied_def)

lemma clearOutputs_emptied:
  "inputs_classified t \<Longrightarrow> clearOutputs c t = priv_updateChangeOutput c (emptied t)"
proof -
  assume "inputs_classified t"
  then have "inputs_classified (t\<lparr>outputs := []\<rparr>)"
    by (simp add: inputs_classified_def)
  then show ?thesis
    by (cases t) (simp add: clearOutputs_def clearSignatures_result emptied_def)
qed

section \<open>The serialization checks, one by one\<close>

lemma ceil_div_150_less:
  "u < Math_ceil_div e FEE_SECURITY_MARGIN \<longleftrightarrow> real_of_int u < real_of_int e / 150"
proof -
  have "\<lceil>real_of_int e / real_of_int 150\<rceil> = - (- e div 150)"
    by (rule ceiling_divide_eq_div)
  then have "Math_ceil_div e FEE_SECURITY_MARGIN = \<lceil>real_of_int e / 150\<rceil>"
    by (simp add: Math_ceil_div_def FEE_SECURITY_MARGIN_def)
  then show ?thesis
    by (simp add: less_ceiling_iff)
qed

lemma estimateFee_filled:
  assumes "hasSpentOutputs t" "amounts_exact t"
  shows "priv_estimateFee c (fill_caches t) = Inr (estimatedFee c t, fill_caches t)"
  using estimateFee_result[OF fill_caches_coherent[OF assms], of c] assms by simp

lemma hasFeeError_result:
  assumes "hasSpentOutputs t" "amounts_exact t" "margin_exact c t"
  shows "priv_hasFeeError c opts (unspentValue t) (fill_caches t)
         = Inr (check_feeBounds c opts t, fill_caches t)"
proof (cases "priv_fee t \<noteq> None \<and> priv_fee t \<noteq> Some (unspentValue t)")
  case True
  then show ?thesis
    by (simp add: priv_hasFeeError_def check_feeBounds_def)
next
  case False
  note nf = False
  have mx: "Math_floor (js_mul FEE_SECURITY_MARGIN (estimatedFee c t)) = 150 * estimatedFee c t"
    using assms(3) by (simp add: margin_exact_def Math_floor_def FEE_SECURITY_MARGIN_def js_mul_exact)
  show ?thesis
  proof (cases "\<not> disableLargeFees opts \<and> unspentValue t > 150 * estimatedFee c t")
    case True
    then show ?thesis
      using nf estimateFee_filled[OF assms(1,2), of c]
      by (auto simp: priv_hasFeeError_def check_feeBounds_def priv_missingChange_def mx)
  next
    case False
    then have l: "(if \<not> disableLargeFees opts
                 then (case priv_estimateFee c (fill_caches t) of
                         Inl e \<Rightarrow> Inl e
                       | Inr (est, t1) \<Rightarrow>
                           (let maximumFee = Math_floor (js_mul FEE_SECURITY_MARGIN est)
                            in if unspentValue t > maximumFee
                               then (if priv_missingChange t1
                                     then Inr (Some ChangeAddressMissing, t1)
                                     else Inr (Some FeeError_TooLarge, t1))
                               else Inr (None, t1)))
                 else Inr (None, fill_caches t)) = Inr (None, fill_caches t)"
      using estimateFee_filled[OF assms(1,2), of c]
      by (auto simp: mx)
    show ?thesis
      using nf False estimateFee_filled[OF assms(1,2), of c]
      unfolding priv_hasFeeError_def l
      by (auto simp: check_feeBounds_def ceil_div_150_less)
  qed
qed

lemma hasDustOutputs_result:
  "priv_hasDustOutputs c opts (fill_caches t) = check_dust c opts t"
  by (simp add: priv_hasDustOutputs_def check_dust_def DUST_AMOUNT_def Let_def
      list_ex_iff filter_empty_conv)

lemma list_all_id_map: "list_all (\<lambda>x. x) (map f xs) = list_all f xs"
  by (induction xs) auto

lemma isMissingSignatures_result:
  "priv_isMissingSignatures c opts (fill_caches t) =
     (if disableIsFullySigned opts then Inr None
      else if \<not> inputs_classified t then Inl UnableToVerifySignature
      else Inr (check_signatures c opts t))"
  by (auto simp: priv_isMissingSignatures_def isFullySigned_def inputs_classified_def
      check_signatures_def list_all_id_map list_ex_iff list_all_iff)


lemma getSerializationError_tail:
  "(case priv_hasDustOutputs c opts (fill_caches t) of
      Some err \<Rightarrow> Inr (Some err, fill_caches t)
    | None \<Rightarrow>
        (case priv_isMissingSignatures c opts (fill_caches t) of
           Inl e \<Rightarrow> Inl (e, fill_caches t)
         | Inr r \<Rightarrow> Inr (r, fill_caches t))) =
   (case check_dust c opts t of
      Some err \<Rightarrow> Inr (Some err, fill_caches t)
    | None \<Rightarrow>
        if disableIsFullySigned opts then Inr (None, fill_caches t)
        else if \<not> inputs_classified t then Inl (UnableToVerifySignature, fill_caches t)
        else Inr (check_signatures c opts t, fill_caches t))"
  by (simp add: hasDustOutputs_result isMissingSignatures_result split: option.splits)

lemma firstFailure_Cons:
  "firstFailure (x # xs) = (case x of None \<Rightarrow> firstFailure xs | Some e \<Rightarrow> Some e)"
  by (cases x) simp_all

lemma check_signatures_disabled:
  "disableIsFullySigned opts \<Longrightarrow> check_signatures c opts t = None"
  by (simp add: check_signatures_def)

section \<open>The loops of the sanity verifier\<close>

declare decimal.simps [simp del]

lemma verify_outputs_find:
  "verify_outputs c outs tot =
     (case find (\<lambda>(out, tot). Output_invalidSatoshis c out
                   \<or> satoshis out > 21000000 * 100000000
                   \<or> tot > 21000000 * 100000000)
             (zip outs (runningTotals tot (map satoshis outs))) of
        None \<Rightarrow> None
      | Some (out, tot) \<Rightarrow>
          Some (if Output_invalidSatoshis c out
                then ''Transaction output contains invalid amount''
                else ''Transaction output contains too high satoshi amount''))"
  by (induction outs arbitrary: tot) (simp_all add: MAX_MONEY_def)

lemma verify_outputs_eq: "verify_outputs c outs 0 = outputFailure c outs"
  by (simp add: verify_outputs_find outputFailure_def)

lemma verify_inputs_seen:
  "verify_inputs c ins seen \<longleftrightarrow>
     \<not> distinct (map (inputid c) ins) \<or> list_ex (\<lambda>inp. inputid c inp \<in> set seen) ins"
proof (induction ins arbitrary: seen)
  case Nil
  then show ?case by simp
next
  case (Cons a ins)
  have "inputid c a \<in> inputid c ` set ins \<longleftrightarrow> (\<exists>inp\<in>set ins. inputid c inp = inputid c a)"
    by (metis (no_types) image_iff)
  then show ?case
    using Cons.IH[of "inputid c a # seen"]
    by (auto simp: list_ex_iff)
qed

lemma distinct_keys_pairs:
  assumes "keys_faithful c t"
  shows "distinct (map (inputid c) (inputs t))
         \<longleftrightarrow> distinct (map (\<lambda>i. (prevTxId i, outputIndex i)) (inputs t))"
proof -
  define g where "g = (\<lambda>(p, n). Buffer_toString c p @ '':'' @ decimal n)"
  have m: "map (inputid c) (inputs t) = map g (map (\<lambda>i. (prevTxId i, outputIndex i)) (inputs t))"
    by (simp add: g_def inputid_def)
  have "inj_on g (set (map (\<lambda>i. (prevTxId i, outputIndex i)) (inputs t)))"
  proof (rule inj_onI)
    fix x y
    assume x: "x \<in> set (map (\<lambda>i. (prevTxId i, outputIndex i)) (inputs t))"
      and y: "y \<in> set (map (\<lambda>i. (prevTxId i, outputIndex i)) (inputs t))"
      and e: "g x = g y"
    from x obtain i where i: "i \<in> set (inputs t)" "x = (prevTxId i, outputIndex i)"
      by auto
    from y obtain j where j: "j \<in> set (inputs t)" "y = (prevTxId j, outputIndex j)"
      by auto
    have k: "inputid c i = inputid c j"
      using e i(2) j(2) by (simp add: g_def inputid_def)
    have "\<forall>i\<in>set (inputs t). \<forall>j\<in>set (inputs t). inputid c i = inputid c j \<longrightarrow>
            prevTxId i = prevTxId j \<and> outputIndex i = outputIndex j"
      using assms unfolding keys_faithful_def list_all_iff .
    then have "prevTxId i = prevTxId j \<and> outputIndex i = outputIndex j"
      using i(1) j(1) k by blast
    then show "x = y"
      using i(2) j(2) by simp
  qed
  then have "distinct (map g (map (\<lambda>i. (prevTxId i, outputIndex i)) (inputs t)))
     \<longleftrightarrow> distinct (map (\<lambda>i. (prevTxId i, outputIndex i)) (inputs t))"
    by (simp only: distinct_map simp_thms)
  then show ?thesis
    by (simp only: m)
qed

lemma verify_inputs_eq:
  "keys_faithful c t \<Longrightarrow> verify_inputs c (inputs t) [] = duplicateInput t"
  by (simp add: verify_inputs_seen duplicateInput_def list_ex_iff distinct_keys_pairs)

section \<open>C1: the change output after an output is removed\<close>

text \<open>
  Claim C1 says that after every public mutation, with a change script configured and a
  positive change, exactly one output is the tracked change output and its amount is
  what is available (the inputs minus the non-change outputs) minus the fee.
  \<open>removeOutput\<close> takes an output out and leaves \<open>_changeIndex\<close> as it is, where
  \<open>_newOutputOrder\<close> looks the change output up again when the outputs move. The run
  below starts from \<open>new Transaction()\<close>: an input of 1,000,000 satoshis, an output of
  100, then a change address, which gives the change output of 899,900 at index 1 (the
  estimated fee is 100,000). \<open>removeOutput(0)\<close> removes the output of 100; the change
  index, still 1, now points past the end, so change maintenance removes nothing,
  counts the old change output among the outputs and appends a second output to the
  change script, of 100 satoshis, which it tracks. Two outputs pay the change script,
  and the tracked one holds 100 where the claim asks for 1,000,000 - 100,000.
\<close>

theorem removeOutput_stale_change_index:
  "uncheckedAddInput sample_collab funded_input Transaction_new
     = Inr (Transaction_new\<lparr>inputs := [funded_input]\<rparr>) \<and>
   addOutput sample_collab sample_output (Transaction_new\<lparr>inputs := [funded_input]\<rparr>)
     = Inr funded_tx \<and>
   change sample_collab ''a'' funded_tx = Inr funded_change_tx \<and>
   map satoshis (outputs funded_change_tx) = [100, 899900] \<and>
   priv_changeIndex funded_change_tx = Some 1 \<and>
   removeOutput sample_collab 0 funded_change_tx = Inr funded_two_change_tx \<and>
   priv_changeScript funded_two_change_tx = Some [97] \<and>
   priv_changeIndex funded_two_change_tx = Some 1 \<and>
   map script (outputs funded_two_change_tx) = [[97], [97]] \<and>
   map satoshis (outputs funded_two_change_tx) = [899900, 100] \<and>
   map_sum fst fst (getFee sample_collab funded_two_change_tx) = Inr 100000"
  by (simp add: uncheckedAddInput_def addOutput_def change_def removeOutput_def
      priv_removeOutput_def priv_updateChangeOutput_def
      priv_clearSignatures_def Input_clearSignatures_def priv_getUnspentValue_def
      priv_getInputAmount_def priv_getOutputAmount_def getFee_def isCoinbase_def
      priv_estimateFee_def priv_estimateSize_def Transaction_estimateFee_def
      Math_ceil_div_def priv_addOutput_def fresh_oid_def funded_two_change_tx_def
      funded_change_tx_def funded_tx_def funded_input_def Transaction_new_def
      Transaction_blank_def priv_newTransaction_def sample_defs const_defs js_exact)

section \<open>C2: signing a transaction with an input that lacks its spent output\<close>

text \<open>
  The precondition of \<open>sign\<close> tests the array that \<open>hasAllUtxoInfo\<close> returns, and an
  array is truthy: the check passes on every transaction, and \<open>sign\<close> is the calls that
  follow the check.
\<close>

lemma hasAllUtxoInfo_truthy: "truthy_array (hasAllUtxoInfo t)"
  by (simp add: truthy_array_def)

lemma sign_single_unguarded:
  "sign c (SingleKey k) st t =
     (case getSignatures c k st t of
        Inl e \<Rightarrow> Inl (e, t)
      | Inr sigs \<Rightarrow> applySignature_each c sigs t)"
  by (simp add: hasAllUtxoInfo_truthy)

lemma sign_array_unguarded: "sign c (KeyArray ks) st t = sign_each c ks st t"
  by (simp add: hasAllUtxoInfo_truthy)

text \<open>
  Claim C2 says that \<open>sign\<close> fails with a precondition error when an input does not
  carry its spent output. On a transaction whose only input has no spent output,
  \<open>hasAllUtxoInfo()\<close> is \<open>[false]\<close> and the check passes; \<open>sign([])\<close>, which has no key
  to sign with, then returns the transaction as it is, with whatever collaborators and
  signature type.
\<close>

theorem sign_without_utxo_info:
  "hasAllUtxoInfo tx_no_utxo = [False] \<and>
   sign c (KeyArray []) st tx_no_utxo = Inr tx_no_utxo"
  by (simp add: tx_no_utxo_def hasAllUtxoInfo_def truthy_array_def)

text \<open>
  With a key, the failure that \<open>sign\<close> ends in on that transaction is not the
  precondition of \<open>sign\<close>: it is raised further down, by the input asked for its
  signatures.
\<close>

lemma sign_single_key_without_utxo_info:
  "sign sample_collab (SingleKey [7]) None tx_no_utxo = Inl (InvalidState [], tx_no_utxo)
   \<and> Input_getSignatures sample_collab tx_no_utxo [7] 0 65 (hd (inputs tx_no_utxo))
       = Inl (InvalidState [])"
  by (simp add: tx_no_utxo_def truthy_array_def getSignatures_def sample_defs)

section \<open>C3: the fee without a change script\<close>

text \<open>
  Claim C3, as amended. For every transaction that is not a coinbase, whose inputs all
  carry their spent outputs, which has no change script and no explicit fee set, whose
  memoised totals, when present, are current, and whose amounts are natural numbers with
  totals of at most \<open>2^53\<close>, \<open>getFee()\<close> returns the total input amount minus the total
  output amount.
\<close>

theorem getFee_unspent_value:
  assumes "\<not> isCoinbase c t" and "hasSpentOutputs t"
    and "priv_changeScript t = None" and "priv_fee t = None"
    and "caches_coherent t" and "amounts_exact t"
  shows "map_sum fst fst (getFee c t) = Inr (inputTotal t - outputTotal t)"
  using assms by (simp add: getFee_def getUnspentValue_result unspentValue_def)

text \<open>The sample transaction: inputs 1000, outputs 100, fee 900.\<close>

theorem getFee_unspent_value_witness:
  "\<not> isCoinbase sample_collab sample_tx \<and> hasSpentOutputs sample_tx \<and>
   priv_changeScript sample_tx = None \<and> priv_fee sample_tx = None \<and>
   caches_coherent sample_tx \<and> amounts_exact sample_tx \<and>
   map_sum fst fst (getFee sample_collab sample_tx) = Inr 900"
proof -
  have h: "priv_changeScript sample_tx = None" "priv_fee sample_tx = None"
    by (simp_all add: sample_defs)
  have "inputTotal sample_tx - outputTotal sample_tx = 900"
    using sample_unspent by (simp add: unspentValue_def)
  then show ?thesis
    using getFee_unspent_value[OF sample_not_coinbase sample_spent h sample_coherent
        sample_amounts]
      sample_coherent sample_not_coinbase sample_spent sample_amounts h
    by simp
qed

text \<open>
  Claim C3 as stated does not ask for the explicit fee to be unset, nor for totals that
  double precision holds. With an explicit fee of 50 on the sample transaction,
  \<open>getFee()\<close> returns 50, not 900. With inputs of \<open>2^53 - 1\<close> and 2 satoshis and one
  output of \<open>2^53 - 1\<close>, the inputs add up to \<open>2^53\<close> in double precision and \<open>getFee()\<close>
  returns 1, not 2.
\<close>

theorem getFee_fixed_fee_counterexample:
  "\<not> isCoinbase sample_collab tx_fixed_fee \<and> hasSpentOutputs tx_fixed_fee \<and>
   priv_changeScript tx_fixed_fee = None \<and>
   map_sum fst fst (getFee sample_collab tx_fixed_fee) = Inr 50 \<and>
   inputTotal tx_fixed_fee - outputTotal tx_fixed_fee = 900 \<and>
   \<not> isCoinbase sample_collab tx_large \<and> hasSpentOutputs tx_large \<and>
   priv_changeScript tx_large = None \<and>
   map_sum fst fst (getFee sample_collab tx_large) = Inr 1 \<and>
   inputTotal tx_large - outputTotal tx_large = 2"
proof -
  have 1: "\<not> isCoinbase sample_collab tx_fixed_fee \<and> hasSpentOutputs tx_fixed_fee \<and>
     priv_changeScript tx_fixed_fee = None \<and>
     map_sum fst fst (getFee sample_collab tx_fixed_fee) = Inr 50 \<and>
     inputTotal tx_fixed_fee - outputTotal tx_fixed_fee = 900"
    by (simp add: tx_fixed_fee_def isCoinbase_def hasSpentOutputs_def getFee_def
        inputTotal_def outputTotal_def sample_defs)
  have a: "js_add 9007199254740991 2 = 9007199254740992"
    by (simp add: js_add_def dbl_above)
  have 2: "\<not> isCoinbase sample_collab tx_large \<and> hasSpentOutputs tx_large \<and>
     priv_changeScript tx_large = None \<and>
     map_sum fst fst (getFee sample_collab tx_large) = Inr 1 \<and>
     inputTotal tx_large - outputTotal tx_large = 2"
    by (simp add: tx_large_def large_input_def small_input_def isCoinbase_def
        hasSpentOutputs_def getFee_def priv_getUnspentValue_def priv_getInputAmount_def
        priv_getOutputAmount_def inputTotal_def outputTotal_def sample_defs js_exact a)
  show ?thesis
    using 1 2 by simp
qed

text \<open>
  What the amended claim leaves out: memoised totals that are not current. On the
  transaction whose input has no spent output, \<open>getFee()\<close> raises and leaves 0 as the
  memoised input total. And \<open>fromBufferReader\<close> appends to the outputs without resetting
  the memoised output total: after it has added an output of 50 satoshis to the sample
  transaction with its totals memoised, \<open>getFee()\<close> still returns 900.
\<close>

lemma getFee_leaves_partial_total:
  "getFee sample_collab tx_no_utxo
     = Inl (MissingPreviousOutput, tx_no_utxo\<lparr>priv_inputAmount := Some 0\<rparr>)"
  by (simp add: getFee_def isCoinbase_def priv_getUnspentValue_def priv_getInputAmount_def
      tx_no_utxo_def sample_defs)

lemma getFee_stale_total:
  "getFee sample_collab sample_tx = Inr (900, tx_memoised) \<and>
   fromBufferReader 1 [] [\<lparr>oid = 1, satoshis = 50, script = [118]\<rparr>] 0 tx_memoised = tx_stale \<and>
   map_sum fst fst (getFee sample_collab tx_stale) = Inr 900 \<and>
   inputTotal tx_stale - outputTotal tx_stale = 850"
  by (simp add: getFee_def isCoinbase_def priv_getUnspentValue_def priv_getInputAmount_def
      priv_getOutputAmount_def fromBufferReader_def inputTotal_def outputTotal_def
      tx_stale_def tx_memoised_def sample_defs js_exact)

section \<open>C4: the fee estimate\<close>

text \<open>
  Claim C4, as amended. Take a transaction whose memoised totals, when present, are
  current, whose \<open>feePerKb\<close> override, when set, is not 0, and whose numbers are in the
  range where double precision is exact: the amounts are natural numbers with totals of
  at most \<open>2^53\<close>, the size estimates of the inputs are natural numbers, the estimated
  size plus 62 is at most \<open>2^53\<close>, and so is \<open>ceil((estimatedSize + 62) / 1000) * rate\<close>
  in magnitude. Then \<open>_estimateFee\<close> raises missing-previous-output when an input lacks
  its spent output, and otherwise returns the two-pass fee: the first pass is
  \<open>ceil(estimatedSize / 1000) * rate\<close>, where \<open>estimatedSize\<close> is the fixed extra-size
  margin plus the inputs' size estimates plus, for each output, its script length plus 9,
  and \<open>rate\<close> is the \<open>feePerKb\<close> override when it is set and 100,000 otherwise; when the
  unspent value (total inputs minus total outputs) exceeds the first pass, the result is
  \<open>ceil((estimatedSize + 62) / 1000) * rate\<close>, otherwise the first pass.
\<close>

theorem estimateFee_two_pass:
  assumes "caches_coherent t" and "priv_feePerKb t \<noteq> Some 0"
    and "amounts_exact t" and "sizes_exact c t" and "fee_exact c t"
  shows "map_sum fst fst (priv_estimateFee c t) =
     (if hasSpentOutputs t then Inr (twoPassFee (rate_as_claimed t) c t)
      else Inl MissingPreviousOutput)"
proof (cases "hasSpentOutputs t")
  case True
  then show ?thesis
    using estimateFee_result[OF assms(1) True assms(3), of c]
      estimatedFee_twoPass[OF assms(4,5,2)]
    by simp
next
  case False
  then show ?thesis
    using estimateFee_missing[OF assms(1) False, of c] by auto
qed

text \<open>
  At the sample transaction (size estimate 145, unspent value 900, default rate) the
  estimate is 100,000; on the transaction whose input has no spent output, the call
  raises.
\<close>

theorem estimateFee_two_pass_witness:
  "caches_coherent sample_tx \<and> priv_feePerKb sample_tx \<noteq> Some 0 \<and>
   amounts_exact sample_tx \<and> sizes_exact sample_collab sample_tx \<and>
   fee_exact sample_collab sample_tx \<and>
   map_sum fst fst (priv_estimateFee sample_collab sample_tx) = Inr 100000 \<and>
   caches_coherent tx_no_utxo \<and> priv_feePerKb tx_no_utxo \<noteq> Some 0 \<and>
   amounts_exact tx_no_utxo \<and> sizes_exact sample_collab tx_no_utxo \<and>
   fee_exact sample_collab tx_no_utxo \<and>
   map_sum fst fst (priv_estimateFee sample_collab tx_no_utxo) = Inl MissingPreviousOutput"
proof -
  have r: "priv_feePerKb sample_tx \<noteq> Some 0"
    by (simp add: sample_defs)
  have s: "sizes_exact sample_collab sample_tx"
    by (simp add: sizes_exact_def estimatedSize_spec_def sample_defs const_defs)
  have f: "fee_exact sample_collab sample_tx"
    by (simp add: fee_exact_def sample_size rate_as_claimed_def const_defs)
      (simp add: sample_defs)
  have v: "twoPassFee (rate_as_claimed sample_tx) sample_collab sample_tx = 100000"
    by (simp add: twoPassFee_def sample_size sample_unspent rate_as_claimed_def const_defs)
      (simp add: sample_defs)
  have c': "caches_coherent tx_no_utxo"
    by (simp add: range_defs tx_no_utxo_def sample_defs)
  have r': "priv_feePerKb tx_no_utxo \<noteq> Some 0"
    by (simp add: tx_no_utxo_def sample_defs)
  have a': "amounts_exact tx_no_utxo"
    by (simp add: range_defs tx_no_utxo_def sample_defs)
  have z': "estimatedSize_spec sample_collab tx_no_utxo = 145"
    by (simp add: estimatedSize_spec_def tx_no_utxo_def sample_defs const_defs)
  have s': "sizes_exact sample_collab tx_no_utxo"
    by (simp add: sizes_exact_def z' const_defs) (simp add: tx_no_utxo_def sample_defs)
  have f': "fee_exact sample_collab tx_no_utxo"
    by (simp add: fee_exact_def z' rate_as_claimed_def const_defs)
      (simp add: tx_no_utxo_def sample_defs)
  have n': "\<not> hasSpentOutputs tx_no_utxo"
    by (simp add: hasSpentOutputs_def tx_no_utxo_def sample_defs)
  show ?thesis
    using estimateFee_two_pass[OF sample_coherent r sample_amounts s f]
      estimateFee_two_pass[OF c' r' a' s' f'] sample_coherent r
      sample_amounts s f sample_spent v c' r' a' s' f' n'
    by simp
qed

text \<open>
  Claim C4 as stated has \<open>_estimateFee\<close> return the two-pass fee on every transaction,
  computed from the sums of the amounts and the product with the rate. On the
  transaction whose input has no spent output it raises missing-previous-output, where
  the stated formula gives 100,000. On the transaction with eight inputs (size estimate
  951) the unspent value is 100,001, above the first pass of 100,000, and the stated
  formula gives the second pass, 200,000; in double precision the inputs add up to
  \<open>2^53\<close>, the unspent value is 100,000, and the code returns the first pass. On the
  transaction with nineteen inputs and a rate of \<open>2^53 - 1\<close> the stated formula gives three
  times the rate, which is odd; the product of the code is the nearest double, one less.
\<close>

theorem estimateFee_raises_counterexample:
  "map_sum fst fst (priv_estimateFee sample_collab tx_no_utxo) = Inl MissingPreviousOutput \<and>
   twoPassFee (rate_as_claimed tx_no_utxo) sample_collab tx_no_utxo = 100000 \<and>
   hasSpentOutputs tx_large_threshold \<and>
   map_sum fst fst (priv_estimateFee sample_collab tx_large_threshold) = Inr 100000 \<and>
   unspentValue tx_large_threshold = 100001 \<and>
   twoPassFee (rate_as_claimed tx_large_threshold) sample_collab tx_large_threshold = 200000 \<and>
   hasSpentOutputs tx_large_rate \<and>
   map_sum fst fst (priv_estimateFee sample_collab tx_large_rate) = Inr 27021597764222972 \<and>
   twoPassFee (rate_as_claimed tx_large_rate) sample_collab tx_large_rate
     = 27021597764222973"
proof -
  have 1: "map_sum fst fst (priv_estimateFee sample_collab tx_no_utxo)
           = Inl MissingPreviousOutput"
    by (simp add: priv_estimateFee_def priv_getUnspentValue_def priv_getInputAmount_def
        tx_no_utxo_def sample_defs)
  have 2: "twoPassFee (rate_as_claimed tx_no_utxo) sample_collab tx_no_utxo = 100000"
    by (simp add: twoPassFee_def rate_as_claimed_def estimatedSize_spec_def unspentValue_def
        inputTotal_def outputTotal_def tx_no_utxo_def sample_defs const_defs)
  have a: "js_add 9007199254740991 2 = 9007199254740992"
    by (simp add: js_add_def dbl_above)
  have 3: "hasSpentOutputs tx_large_threshold"
    by (simp add: hasSpentOutputs_def tx_large_threshold_def large_input_def small_input_def
        zero_input_def sample_defs)
  have 4: "map_sum fst fst (priv_estimateFee sample_collab tx_large_threshold) = Inr 100000"
    by (simp add: priv_estimateFee_def priv_estimateSize_def priv_getUnspentValue_def
        priv_getInputAmount_def priv_getOutputAmount_def Transaction_estimateFee_def
        Math_ceil_div_def tx_large_threshold_def large_input_def small_input_def
        zero_input_def sample_defs const_defs js_exact a)
  have 5: "unspentValue tx_large_threshold = 100001"
    by (simp add: unspentValue_def inputTotal_def outputTotal_def tx_large_threshold_def
        large_input_def small_input_def zero_input_def sample_defs)
  have 6: "estimatedSize_spec sample_collab tx_large_threshold = 951"
    by (simp add: estimatedSize_spec_def tx_large_threshold_def large_input_def
        small_input_def zero_input_def sample_defs const_defs)
  have r: "rate_as_claimed tx_large_threshold = 100000"
    by (simp add: rate_as_claimed_def tx_large_threshold_def sample_defs)
  have 7: "twoPassFee (rate_as_claimed tx_large_threshold) sample_collab tx_large_threshold
           = 200000"
    by (simp add: twoPassFee_def 5 6 r const_defs)
  have 8: "hasSpentOutputs tx_large_rate"
    by (simp add: hasSpentOutputs_def tx_large_rate_def sample_defs)
  have m: "js_mul 3 9007199254740991 = 27021597764222972"
    by (simp add: js_mul_def dbl_product)
  have 9: "map_sum fst fst (priv_estimateFee sample_collab tx_large_rate)
           = Inr 27021597764222972"
    by (simp add: priv_estimateFee_def priv_estimateSize_def priv_getUnspentValue_def
        priv_getInputAmount_def priv_getOutputAmount_def Transaction_estimateFee_def
        Math_ceil_div_def tx_large_rate_def sample_defs const_defs js_exact m)
  have 10: "estimatedSize_spec sample_collab tx_large_rate = 2071"
    by (simp add: estimatedSize_spec_def tx_large_rate_def sample_defs const_defs)
  have 11: "unspentValue tx_large_rate = 18900"
    by (simp add: unspentValue_def inputTotal_def outputTotal_def tx_large_rate_def
        sample_defs)
  have r': "rate_as_claimed tx_large_rate = 9007199254740991"
    by (simp add: rate_as_claimed_def tx_large_rate_def sample_defs)
  have 12: "twoPassFee (rate_as_claimed tx_large_rate) sample_collab tx_large_rate
            = 27021597764222973"
    by (simp add: twoPassFee_def 10 11 r' const_defs)
  show ?thesis
    using 1 2 3 4 5 7 8 9 12 by simp
qed

text \<open>
  What the amended claim leaves out: the override 0. The rate is
  \<open>feePerKb || Transaction.FEE_PER_KB\<close>, and 0 is falsy: after \<open>feePerKb(0)\<close> the
  estimate is made at the default rate, where \<open>fee(0)\<close> is taken as it is.
\<close>

lemma estimateFee_zero_rate:
  "priv_feePerKb tx_zero_rate = Some 0 \<and>
   map_sum fst fst (priv_estimateFee sample_collab tx_zero_rate) = Inr 100000"
  by (simp add: tx_zero_rate_def priv_estimateFee_def
      priv_estimateSize_def priv_getUnspentValue_def priv_getInputAmount_def
      priv_getOutputAmount_def Transaction_estimateFee_def Math_ceil_div_def
      sample_defs const_defs js_exact)

section \<open>C5: the serialization-check pipeline\<close>

text \<open>
  Claim C5, as amended. Take a transaction whose memoised totals, when present, are
  current and whose numbers are in the range where double precision is exact (the
  amounts are natural numbers with totals of at most \<open>2^53\<close>, the size estimates of the
  inputs are natural numbers, the estimated size plus 62 is at most \<open>2^53\<close>, and 150
  times the estimated fee is at most \<open>2^53\<close> in magnitude), and an option set. Then
  \<open>getSerializationError\<close> evaluates its checks in the fixed order (1) invalid output
  satoshis, (2) unspent value negative (unless \<open>disableMoreOutputThanInput\<close>), (3) fee
  bounds, only when the unspent value is not negative, (4) dust outputs (unless
  \<open>disableDustOutputs\<close>), (5) missing signatures (unless \<open>disableIsFullySigned\<close>), and
  returns the first failure, or nothing if all pass. In step (3), an explicit fee that
  differs from the unspent value gives fee-mismatch; else an unspent value above 150
  times the estimated fee (unless \<open>disableLargeFees\<close>) gives fee-too-large, or
  change-address-missing when no change script is configured; else an unspent value
  below the estimated fee divided by 150 (unless \<open>disableSmallFees\<close>) gives
  fee-too-small. It raises instead of returning in two cases: missing-previous-output
  when check (1) passes and an input lacks its spent output, and
  unable-to-verify-signature when checks (1) to (4) pass, check (5) is enabled and an
  input is unclassified.
\<close>

theorem getSerializationError_pipeline:
  assumes "caches_coherent t" and "amounts_exact t" and "sizes_exact c t"
    and "margin_exact c t"
  shows "map_sum fst fst (getSerializationError c opts t) =
     (case serializationError_raised c opts t of
        Some e \<Rightarrow> Inl e
      | None \<Rightarrow> Inr (serializationError_amended c opts t))"
proof (cases "invalidSatoshis c t")
  case True
  then show ?thesis
    by (simp add: getSerializationError_def serializationError_raised_def
        serializationError_amended_def check_invalidSatoshis_def invalidSatoshis_def)
next
  case False
  then have c1: "check_invalidSatoshis c t = None"
    by (simp add: check_invalidSatoshis_def invalidSatoshis_def)
  show ?thesis
  proof (cases "hasSpentOutputs t")
    case False
    then show ?thesis
      using \<open>\<not> invalidSatoshis c t\<close> c1 getUnspentValue_missing[OF assms(1) False]
      by (auto simp: getSerializationError_def serializationError_raised_def)
  next
    case True
    have u: "priv_getUnspentValue t = Inr (unspentValue t, fill_caches t)"
      by (rule getUnspentValue_result[OF assms(1) True assms(2)])
    note hasFeeError_result = hasFeeError_result[OF True assms(2,4)]
    show ?thesis
    proof (cases "unspentValue t < 0")
      case neg: True
      show ?thesis
      proof (cases "disableMoreOutputThanInput opts")
        case True
        then have c2: "check_negativeUnspent opts t = None"
          by (simp add: check_negativeUnspent_def)
        show ?thesis
          using \<open>\<not> invalidSatoshis c t\<close> \<open>hasSpentOutputs t\<close> neg True
          unfolding getSerializationError_def u
          by (simp add: getSerializationError_tail serializationError_raised_def
              serializationError_amended_def c1 c2 check_signatures_disabled
              firstFailure_Cons split: option.splits)
      next
        case False
        then have c2: "check_negativeUnspent opts t = Some InvalidOutputAmountSum"
          using neg by (simp add: check_negativeUnspent_def)
        show ?thesis
          using \<open>\<not> invalidSatoshis c t\<close> \<open>hasSpentOutputs t\<close> neg False
          unfolding getSerializationError_def u
          by (simp add: serializationError_raised_def serializationError_amended_def c1 c2)
      qed
    next
      case nonneg: False
      then have c2: "check_negativeUnspent opts t = None"
        by (simp add: check_negativeUnspent_def)
      show ?thesis
      proof (cases "check_feeBounds c opts t")
        case None
        show ?thesis
          using \<open>\<not> invalidSatoshis c t\<close> \<open>hasSpentOutputs t\<close> nonneg None
          unfolding getSerializationError_def u
          by (simp add: hasFeeError_result getSerializationError_tail
              serializationError_raised_def serializationError_amended_def c1 c2
              check_signatures_disabled firstFailure_Cons split: option.splits)
      next
        case (Some e)
        show ?thesis
          using \<open>\<not> invalidSatoshis c t\<close> \<open>hasSpentOutputs t\<close> nonneg Some
          unfolding getSerializationError_def u
          by (simp add: hasFeeError_result serializationError_raised_def
              serializationError_amended_def c1 c2)
      qed
    qed
  qed
qed

text \<open>
  The signed sample transaction passes checks (1) to (3) (unspent value 900, estimated
  fee 100,000) and fails the dust check: its output holds 100 satoshis.
\<close>

theorem getSerializationError_pipeline_witness:
  "caches_coherent tx_signed \<and> amounts_exact tx_signed \<and>
   sizes_exact sample_collab tx_signed \<and> margin_exact sample_collab tx_signed \<and>
   map_sum fst fst (getSerializationError sample_collab opts_default tx_signed)
     = Inr (Some DustOutputs)"
proof -
  have c: "caches_coherent tx_signed"
    by (simp add: range_defs tx_signed_def sample_defs)
  have a: "amounts_exact tx_signed"
    by (simp add: range_defs tx_signed_def sample_defs)
  have e: "estimatedFee sample_collab tx_signed = 100000"
    by (simp add: estimatedFee_def Transaction_estimateFee_def priv_estimateSize_def
        Math_ceil_div_def unspentValue_def inputTotal_def outputTotal_def
        tx_signed_def sample_defs const_defs js_exact)
  have m: "margin_exact sample_collab tx_signed"
    by (simp add: margin_exact_def e)
  have z: "sizes_exact sample_collab tx_signed"
    by (simp add: sizes_exact_def estimatedSize_spec_def tx_signed_def sample_defs const_defs)
  have u: "unspentValue tx_signed = 900"
    by (simp add: unspentValue_def inputTotal_def outputTotal_def tx_signed_def sample_defs)
  have r: "serializationError_raised sample_collab opts_default tx_signed = None"
    by (simp add: serializationError_raised_def check_invalidSatoshis_def hasSpentOutputs_def
        check_negativeUnspent_def check_feeBounds_def check_dust_def u e
        inputs_classified_def opts_default_def)
      (simp add: tx_signed_def sample_defs)
  have s: "serializationError_amended sample_collab opts_default tx_signed
           = Some DustOutputs"
    by (simp add: serializationError_amended_def check_invalidSatoshis_def
        check_negativeUnspent_def check_feeBounds_def check_dust_def u e opts_default_def)
      (simp add: tx_signed_def sample_defs)
  show ?thesis
    using getSerializationError_pipeline[OF c a z m, of opts_default] c a z m r s
    by simp
qed

text \<open>
  Claim C5 as stated runs the fee bounds as step (3) whatever the unspent value, on the
  sums of the amounts. On a signed transaction with input 1000 and output 2000, with
  only \<open>disableMoreOutputThanInput\<close> set, the unspent value -1000 is below the estimated
  fee divided by 150 and the stated pipeline gives fee-too-small; the code skips the fee
  bounds and returns nothing. On the signed transaction with inputs of \<open>2^53 - 1\<close> and 4
  satoshis and outputs of \<open>2^53 - 1\<close> and 5, the unspent value is -1 and the stated
  pipeline gives outputs-exceed-inputs; in double precision both totals are \<open>2^53 + 4\<close>,
  the code goes on to the fee bounds and returns fee-too-small.
\<close>

theorem getSerializationError_overspent_counterexample:
  "map_sum fst fst (getSerializationError sample_collab opts_allow_overspend tx_overspent)
     = Inr None \<and>
   serializationError_claimed sample_collab opts_allow_overspend tx_overspent
     = Some FeeError_TooSmall \<and>
   map_sum fst fst (getSerializationError sample_collab opts_default tx_large_overspent)
     = Inr (Some FeeError_TooSmall) \<and>
   unspentValue tx_large_overspent = - 1 \<and>
   serializationError_claimed sample_collab opts_default tx_large_overspent
     = Some InvalidOutputAmountSum"
proof -
  have e1: "estimatedFee sample_collab tx_overspent = 100000"
    by (simp add: estimatedFee_def Transaction_estimateFee_def priv_estimateSize_def
        Math_ceil_div_def unspentValue_def inputTotal_def outputTotal_def
        tx_overspent_def tx_signed_def sample_defs const_defs js_exact)
  have u1: "unspentValue tx_overspent = - 1000"
    by (simp add: unspentValue_def inputTotal_def outputTotal_def tx_overspent_def
        tx_signed_def sample_defs)
  have 1: "map_sum fst fst (getSerializationError sample_collab opts_allow_overspend
             tx_overspent) = Inr None"
    by (simp add: getSerializationError_def invalidSatoshis_def priv_getUnspentValue_def
        priv_getInputAmount_def priv_getOutputAmount_def priv_hasDustOutputs_def
        priv_isMissingSignatures_def isFullySigned_def opts_allow_overspend_def
        tx_overspent_def tx_signed_def sample_signature_def sample_defs const_defs js_exact)
  have 2: "serializationError_claimed sample_collab opts_allow_overspend tx_overspent
           = Some FeeError_TooSmall"
    by (simp add: serializationError_claimed_def check_invalidSatoshis_def
        check_negativeUnspent_def check_feeBounds_def u1 e1 opts_allow_overspend_def)
      (simp add: tx_overspent_def tx_signed_def sample_defs)
  have a: "js_add 9007199254740991 4 = 9007199254740996"
    "js_add 9007199254740991 5 = 9007199254740996"
    by (simp_all add: js_add_def dbl_above3 dbl_above4)
  have 3: "map_sum fst fst (getSerializationError sample_collab opts_default
             tx_large_overspent) = Inr (Some FeeError_TooSmall)"
    by (simp add: getSerializationError_def invalidSatoshis_def priv_getUnspentValue_def
        priv_getInputAmount_def priv_getOutputAmount_def priv_hasFeeError_def
        priv_estimateFee_def priv_estimateSize_def Transaction_estimateFee_def
        Math_ceil_div_def Math_floor_def opts_default_def
        tx_large_overspent_def large_input_def four_input_def sample_defs const_defs
        js_exact a)
  have 4: "unspentValue tx_large_overspent = - 1"
    by (simp add: unspentValue_def inputTotal_def outputTotal_def tx_large_overspent_def
        large_input_def four_input_def sample_defs)
  have 5: "serializationError_claimed sample_collab opts_default tx_large_overspent
           = Some InvalidOutputAmountSum"
    by (simp add: serializationError_claimed_def check_invalidSatoshis_def
        check_negativeUnspent_def 4 opts_default_def)
      (simp add: tx_large_overspent_def sample_defs)
  show ?thesis
    using 1 2 3 4 5 by simp
qed

text \<open>
  What the amended claim leaves out: memoised totals that are not current. The first
  call on the transaction whose input has no spent output raises and leaves 0 as the
  memoised input total; the second call takes that total as it is and returns
  outputs-exceed-inputs.
\<close>

lemma getSerializationError_after_raise:
  "getSerializationError sample_collab opts_default tx_no_utxo
     = Inl (MissingPreviousOutput, tx_no_utxo\<lparr>priv_inputAmount := Some 0\<rparr>) \<and>
   map_sum fst fst (getSerializationError sample_collab opts_default
      (tx_no_utxo\<lparr>priv_inputAmount := Some 0\<rparr>)) = Inr (Some InvalidOutputAmountSum)"
  by (simp add: getSerializationError_def invalidSatoshis_def priv_getUnspentValue_def
      priv_getInputAmount_def priv_getOutputAmount_def opts_default_def tx_no_utxo_def
      sample_defs js_exact)

section \<open>C6: the sanity verifier\<close>

text \<open>
  Claim C6, as amended. For every transaction in which inputs with the same key text
  \<open>`${prevTxId}:${outputIndex}`\<close> have the same \<open>(prevTxId, outputIndex)\<close> pair,
  \<open>verify()\<close> returns the failure string of the first failing check in the fixed
  order: empty inputs; empty outputs; the outputs, taken one by one in their order, where
  the first output that has a syntactically invalid amount, or an amount above the
  maximum-money bound (21,000,000 x 10^8), or that brings the exact running total of the
  amounts above that bound, fails with the invalid-amount string in the first case and
  the too-high string in the other two; encoded size above 1,000,000 bytes; a duplicate
  \<open>(prevTxId, outputIndex)\<close> pair across inputs; for a coinbase (exactly one input, and
  it is null), an unlock-script length outside [2, 100]; for a non-coinbase, any null
  input. It returns \<open>true\<close> when every check passes.
\<close>

theorem verify_first_failure:
  assumes "keys_faithful c t"
  shows "verify c t = verify_amended c t"
  using assms
  by (simp add: verify_def verify_amended_def verify_outputs_eq verify_inputs_eq laterChecks_def
      encodedSize_def MAX_BLOCK_SIZE_def Let_def list_ex_iff filter_empty_conv
      split: option.splits)

text \<open>
  The sample transaction, followed by a second input that spends another output of the
  same previous transaction, passes every check; with the sample input twice, it has a
  duplicate input.
\<close>

theorem verify_first_failure_witness:
  "keys_faithful sample_collab (sample_tx\<lparr>inputs := [sample_input, sample_input\<lparr>outputIndex := 1\<rparr>]\<rparr>)
   \<and> verify sample_collab (sample_tx\<lparr>inputs := [sample_input, sample_input\<lparr>outputIndex := 1\<rparr>]\<rparr>)
       = VerifyTrue
   \<and> keys_faithful sample_collab (sample_tx\<lparr>inputs := [sample_input, sample_input]\<rparr>)
   \<and> verify sample_collab (sample_tx\<lparr>inputs := [sample_input, sample_input]\<rparr>)
       = VerifyFailure ''Transaction contains duplicate input''"
proof -
  let ?a = "sample_tx\<lparr>inputs := [sample_input, sample_input\<lparr>outputIndex := 1\<rparr>]\<rparr>"
  let ?b = "sample_tx\<lparr>inputs := [sample_input, sample_input]\<rparr>"
  have ka: "keys_faithful sample_collab ?a"
    by (simp add: keys_faithful_def inputid_def decimal.simps[of 0] decimal.simps[of "Suc 0"]
        sample_defs)
  have kb: "keys_faithful sample_collab ?b"
    by (simp add: keys_faithful_def)
  have a: "verify_amended sample_collab ?a = VerifyTrue"
    by (simp add: verify_amended_def outputFailure_def laterChecks_def encodedSize_def
        toBuffer_def duplicateInput_def isCoinbase_def sample_defs const_defs)
  have b: "verify_amended sample_collab ?b
           = VerifyFailure ''Transaction contains duplicate input''"
    by (simp add: verify_amended_def outputFailure_def laterChecks_def encodedSize_def
        toBuffer_def duplicateInput_def isCoinbase_def sample_defs const_defs)
  show ?thesis
    using verify_first_failure[OF ka] verify_first_failure[OF kb] ka kb a b by simp
qed

text \<open>
  Claim C6 as stated puts the invalid-amount check, over all outputs, before the
  too-high check. On a transaction whose first output is valid but one satoshi above the
  bound and whose second output is invalid, the stated order gives the invalid-amount
  string; the code stops at the first output and returns the too-high string.
\<close>

theorem verify_interleaved_counterexample:
  "verify sample_collab tx_high_then_invalid
     = VerifyFailure ''Transaction output contains too high satoshi amount'' \<and>
   verify_claimed sample_collab tx_high_then_invalid
     = VerifyFailure ''Transaction output contains invalid amount''"
  by (simp add: verify_def verify_claimed_def tx_high_then_invalid_def sample_defs const_defs)

text \<open>
  What the amended claim leaves out. The key text is built from \<open>prevTxId.toString()\<close>,
  which is not the hexadecimal form that \<open>removeInput\<close> compares. Whenever that text is
  the same for the ids of two inputs with the same output index, the loop over the
  inputs reports a duplicate, whether or not the ids are the same.
\<close>

lemma verify_inputs_same_text:
  assumes "Buffer_toString c (prevTxId i) = Buffer_toString c (prevTxId j)"
    and "outputIndex i = outputIndex j"
  shows "verify_inputs c [i, j] []"
  using assms by (simp add: inputid_def)

section \<open>C7: removing an output by position\<close>

text \<open>
  Claim C7 says that \<open>removeOutput(index)\<close> fails with an invalid-index error for every
  index outside \<open>[0, outputs.length)\<close>. The code has no such check: on the sample
  transaction, which has one output, \<open>removeOutput(5)\<close> and \<open>removeOutput(-1)\<close> return
  normally and leave the outputs as they were, while \<open>removeInput(5)\<close> on the same
  transaction, which has one input, raises the invalid-index error.
\<close>

theorem removeOutput_out_of_range:
  "length (outputs sample_tx) = 1 \<and>
   removeOutput sample_collab 5 sample_tx = Inr sample_tx \<and>
   removeOutput sample_collab (- 1) sample_tx = Inr sample_tx \<and>
   removeInput sample_collab (TxIdNumber 5) None sample_tx
     = Inl (InvalidIndex 5 1, sample_tx)"
  by (simp add: removeOutput_def priv_removeOutput_def priv_updateChangeOutput_def
      removeInput_def sample_defs)

text \<open>On no transaction and at no index does \<open>removeOutput\<close> raise the invalid-index error.\<close>

lemma removeOutput_never_invalid_index:
  "removeOutput c index t \<noteq> Inl (InvalidIndex i n, u)"
  using updateChangeOutput_error[of c "priv_removeOutput index t" "InvalidIndex i n" u]
  by (auto simp: removeOutput_def)

section \<open>C8: setting the fee and the signatures\<close>

text \<open>
  Claim C8 says that \<open>fee(amount)\<close> and \<open>feePerKb(amount)\<close> clear all input signatures,
  also when no change script is configured. Change maintenance returns before it clears
  anything when there is no change script: on the signed sample transaction both calls
  only store the override, and the input keeps its signature.
\<close>

theorem fee_keeps_signatures:
  "priv_changeScript tx_signed = None \<and>
   map signatures (inputs tx_signed) = [[sample_signature]] \<and>
   fee sample_collab 500 tx_signed = Inr (tx_signed\<lparr>priv_fee := Some 500\<rparr>) \<and>
   feePerKb sample_collab 500 tx_signed = Inr (tx_signed\<lparr>priv_feePerKb := Some 500\<rparr>)"
  by (simp add: tx_signed_def fee_def feePerKb_def priv_updateChangeOutput_def sample_defs)

text \<open>
  In general: without a change script \<open>fee\<close> and \<open>feePerKb\<close> only store the override, and
  the inputs, signatures included, stay as they are; with a change script, when they
  return, no input holds a signature.
\<close>

lemma fee_without_change_script:
  "priv_changeScript t = None \<Longrightarrow> fee c amount t = Inr (t\<lparr>priv_fee := Some amount\<rparr>)"
  by (simp add: fee_def updateChangeOutput_no_script)

lemma feePerKb_without_change_script:
  "priv_changeScript t = None \<Longrightarrow>
   feePerKb c amount t = Inr (t\<lparr>priv_feePerKb := Some amount\<rparr>)"
  by (simp add: feePerKb_def updateChangeOutput_no_script)

lemma cleared_no_signatures: "list_all (\<lambda>i. signatures i = []) (clearedInputs ins)"
  by (induction ins) (auto simp: clearedInputs_def)

lemma fee_with_change_script:
  assumes "priv_changeScript t = Some cs" "fee c amount t = Inr t'"
  shows "list_all (\<lambda>i. signatures i = []) (inputs t')"
  using updateChangeOutput_inputs[of c "t\<lparr>priv_fee := Some amount\<rparr>" t' cs] assms
  by (simp add: fee_def cleared_no_signatures)

lemma feePerKb_with_change_script:
  assumes "priv_changeScript t = Some cs" "feePerKb c amount t = Inr t'"
  shows "list_all (\<lambda>i. signatures i = []) (inputs t')"
  using updateChangeOutput_inputs[of c "t\<lparr>priv_feePerKb := Some amount\<rparr>" t' cs] assms
  by (simp add: feePerKb_def cleared_no_signatures)

section \<open>C9: clearing the outputs\<close>

text \<open>
  Claim C9, as amended. Take a transaction whose inputs are all classified and carry
  their spent outputs, whose memoised input total, when present, is current, and whose
  numbers are in the range where double precision is exact: the input amounts are
  natural numbers with a total of at most \<open>2^53\<close>, the size estimates of the inputs
  are natural numbers, the estimated size plus 62 is at most \<open>2^53\<close>, and so is, in
  magnitude, the total of the inputs minus \<open>f\<close>, the value of \<open>getFee()\<close> once the outputs
  are emptied. Then \<open>clearOutputs()\<close>
  returns, and when a change script is configured and the total of the inputs minus \<open>f\<close>
  is positive, the outputs afterwards are exactly one output, the tracked change output
  at index 0, whose script is the change script and whose amount is that difference;
  otherwise (no change script, or no positive change) the outputs are empty.
\<close>

theorem clearOutputs_change_output:
  assumes "inputs_classified t" and "hasSpentOutputs t"
    and "input_cache_current t" and "input_amounts_exact t" and "sizes_exact c t"
    and "map_sum fst fst (getFee c (emptied t)) = Inr f"
    and "\<bar>inputTotal t - f\<bar> \<le> 9007199254740992"
  shows "\<exists>t'. clearOutputs c t = Inr t' \<and>
     (if priv_changeScript t \<noteq> None \<and> inputTotal t - f > 0
      then outputs t' = [\<lparr>oid = 0, satoshis = inputTotal t - f,
                           script = the (priv_changeScript t)\<rparr>]
           \<and> priv_changeIndex t' = Some 0
      else outputs t' = [])"
proof (cases "priv_changeScript t")
  case None
  then show ?thesis
    using assms(1) by (simp add: clearOutputs_emptied updateChangeOutput_no_script)
next
  case (Some cs)
  have coh: "caches_coherent (emptied t)"
    by (rule emptied_coherent[OF assms(3)])
  have sp: "hasSpentOutputs (emptied t)"
    using assms(2) by simp
  have ex: "amounts_exact (emptied t)"
    by (rule emptied_amounts[OF assms(4)])
  have f: "f = fee_value c (emptied t)"
    using getFee_result[OF coh sp ex, of c] assms(6) by simp
  have u: "priv_getUnspentValue (emptied t) = Inr (inputTotal t, fill_caches (emptied t))"
    using getUnspentValue_result[OF coh sp ex] by simp
  have g: "getFee c (fill_caches (emptied t)) = Inr (f, fill_caches (emptied t))"
    using getFee_filled[OF sp ex, of c] f by simp
  have d: "js_sub (inputTotal t) f = inputTotal t - f"
    by (rule js_sub_exact[OF assms(7)])
  have cl: "priv_clearSignatures (emptied t) = Inr (emptied t)"
    using assms(1) by (simp add: clearSignatures_result emptied_cleared)
  have r: "priv_updateChangeOutput c (emptied t) =
     (if inputTotal t - f > 0
      then Inr (priv_addOutput \<lparr>oid = fresh_oid [], satoshis = inputTotal t - f, script = cs\<rparr>
                  ((fill_caches (emptied t))\<lparr>priv_changeIndex := Some 0\<rparr>))
      else Inr ((fill_caches (emptied t))\<lparr>priv_changeIndex := None\<rparr>))"
    by (simp add: priv_updateChangeOutput_def Some cl u g d)
  show ?thesis
    using Some assms(1)
    by (simp add: clearOutputs_emptied r priv_addOutput_def fresh_oid_def)
qed

text \<open>
  On the funded transaction with its change output, \<open>clearOutputs()\<close> leaves one output:
  the new change output of 900,000 (inputs 1,000,000, fee 100,000).
\<close>

theorem clearOutputs_change_output_witness:
  "inputs_classified funded_change_tx \<and> hasSpentOutputs funded_change_tx \<and>
   input_cache_current funded_change_tx \<and> input_amounts_exact funded_change_tx \<and>
   sizes_exact sample_collab funded_change_tx \<and>
   map_sum fst fst (getFee sample_collab (emptied funded_change_tx)) = Inr 100000 \<and>
   \<bar>inputTotal funded_change_tx - 100000\<bar> \<le> 9007199254740992 \<and>
   (\<exists>t'. clearOutputs sample_collab funded_change_tx = Inr t' \<and>
      outputs t' = [\<lparr>oid = 0, satoshis = 900000, script = [97]\<rparr>] \<and>
      priv_changeIndex t' = Some 0)"
proof -
  have 1: "inputs_classified funded_change_tx"
    by (simp add: inputs_classified_def funded_change_tx_def funded_tx_def funded_input_def
        sample_defs)
  have 2: "hasSpentOutputs funded_change_tx"
    by (simp add: hasSpentOutputs_def funded_change_tx_def funded_tx_def funded_input_def
        sample_defs)
  have 3: "input_cache_current funded_change_tx"
    by (simp add: input_cache_current_def funded_change_tx_def funded_tx_def funded_input_def
        sample_defs js_exact)
  have 5: "inputTotal funded_change_tx = 1000000"
    "priv_changeScript funded_change_tx = Some [97]"
    by (simp_all add: inputTotal_def funded_change_tx_def funded_tx_def funded_input_def
        sample_defs)
  have 4: "input_amounts_exact funded_change_tx"
    by (simp add: input_amounts_exact_def 5)
      (simp add: funded_change_tx_def funded_tx_def funded_input_def sample_defs)
  have 6: "map_sum fst fst (getFee sample_collab (emptied funded_change_tx)) = Inr 100000"
    by (simp add: emptied_def clearedInputs_def getFee_def isCoinbase_def priv_estimateFee_def
        priv_estimateSize_def priv_getUnspentValue_def priv_getInputAmount_def
        priv_getOutputAmount_def Transaction_estimateFee_def Math_ceil_div_def
        funded_change_tx_def funded_tx_def funded_input_def sample_defs const_defs js_exact)
  have 7: "\<bar>inputTotal funded_change_tx - 100000\<bar> \<le> 9007199254740992"
    by (simp add: 5)
  have 8: "sizes_exact sample_collab funded_change_tx"
    by (simp add: sizes_exact_def estimatedSize_spec_def funded_change_tx_def funded_tx_def
        funded_input_def sample_defs const_defs)
  show ?thesis
    using clearOutputs_change_output[OF 1 2 3 4 8 6 7] 1 2 3 4 5 6 8 by simp
qed

text \<open>
  Claim C9 as stated covers every transaction with a change script and a positive
  change, on the sum of the input amounts. With an input of the base class, which
  carries 1,000,000 satoshis, \<open>clearOutputs()\<close> empties the outputs and then raises, in
  \<open>_clearSignatures\<close>: the outputs are left empty, with a change script set and a fee of
  100,000. With inputs of \<open>2^53 - 1\<close> and 2 satoshis, a change script and an explicit fee
  of \<open>2^53\<close>, the change is 1 satoshi; in double precision the inputs add up to \<open>2^53\<close>,
  the change amount is 0, and the outputs stay empty.
\<close>

theorem clearOutputs_empty_counterexample:
  "priv_changeScript tx_generic_change = Some [97] \<and>
   map_sum fst fst (getFee sample_collab (emptied tx_generic_change)) = Inr 100000 \<and>
   inputTotal tx_generic_change = 1000000 \<and>
   clearOutputs sample_collab tx_generic_change
     = Inl (AbstractMethodInvoked, tx_generic_change\<lparr>outputs := []\<rparr>) \<and>
   priv_changeScript tx_large_change = Some [97] \<and>
   map_sum fst fst (getFee sample_collab (emptied tx_large_change))
     = Inr 9007199254740992 \<and>
   inputTotal tx_large_change = 9007199254740993 \<and>
   map_sum fst outputs (clearOutputs sample_collab tx_large_change) = Inr []"
proof -
  have 1: "priv_changeScript tx_generic_change = Some [97] \<and>
     map_sum fst fst (getFee sample_collab (emptied tx_generic_change)) = Inr 100000 \<and>
     inputTotal tx_generic_change = 1000000"
    by (simp add: emptied_def clearedInputs_def getFee_def isCoinbase_def priv_estimateFee_def
        priv_estimateSize_def priv_getUnspentValue_def priv_getInputAmount_def
        priv_getOutputAmount_def Transaction_estimateFee_def Math_ceil_div_def inputTotal_def
        tx_generic_change_def funded_input_def sample_defs const_defs js_exact)
  have 2: "clearOutputs sample_collab tx_generic_change
     = Inl (AbstractMethodInvoked, tx_generic_change\<lparr>outputs := []\<rparr>)"
    by (simp add: clearOutputs_def priv_clearSignatures_def Input_clearSignatures_def
        tx_generic_change_def funded_input_def sample_defs)
  have a: "js_add 9007199254740991 2 = 9007199254740992"
    by (simp add: js_add_def dbl_above)
  have 3: "priv_changeScript tx_large_change = Some [97] \<and>
     map_sum fst fst (getFee sample_collab (emptied tx_large_change))
       = Inr 9007199254740992 \<and>
     inputTotal tx_large_change = 9007199254740993"
    by (simp add: emptied_def clearedInputs_def getFee_def isCoinbase_def inputTotal_def
        tx_large_change_def large_input_def small_input_def sample_defs)
  have 4: "map_sum fst outputs (clearOutputs sample_collab tx_large_change) = Inr []"
    by (simp add: clearOutputs_def priv_updateChangeOutput_def priv_clearSignatures_def
        Input_clearSignatures_def priv_getUnspentValue_def priv_getInputAmount_def
        priv_getOutputAmount_def getFee_def isCoinbase_def
        tx_large_change_def large_input_def small_input_def sample_defs js_exact a)
  show ?thesis
    using 1 2 3 4 by simp
qed

section \<open>C10: reconstruction drops zero-valued bookkeeping fields\<close>

text \<open>
  Claim C10. When \<open>fromObject\<close> reconstructs a transaction from a snapshot (the
  constructor calls it on the blank transaction) and returns, the change index of the
  result is unset when the snapshot's \<open>changeIndex\<close> is 0 (or absent) and is the
  snapshot's value otherwise; likewise the explicit fee is unset when the snapshot's
  \<open>fee\<close> is 0 (or absent) and is the snapshot's value otherwise.
\<close>

theorem fromObject_drops_zero:
  assumes "fromObject c arg Transaction_blank = Inr t"
  shows "priv_changeIndex t = (if obj_changeIndex arg = Some 0 then None else obj_changeIndex arg)
       \<and> priv_fee t = (if obj_fee arg = Some 0 then None else obj_fee arg)"
proof -
  have b: "no_change_state Transaction_blank"
    by (simp add: no_change_state_def Transaction_blank_def)
  from assms obtain t1 t2 where
    t1: "fromObject_inputs c (obj_inputs arg) Transaction_blank = Inr t1" and
    t2: "fromObject_outputs c (obj_outputs arg) t1 = Inr t2"
    by (auto simp: fromObject_def split: sum.splits)
  have n: "no_change_state t2"
    using fromObject_outputs_no_change[OF fromObject_inputs_no_change[OF b t1] t2] .
  have ci: "truthy_num (obj_changeIndex arg) \<longleftrightarrow>
      obj_changeIndex arg \<noteq> None \<and> obj_changeIndex arg \<noteq> Some 0"
    by (cases "obj_changeIndex arg") auto
  have fe: "truthy_num (obj_fee arg) \<longleftrightarrow> obj_fee arg \<noteq> None \<and> obj_fee arg \<noteq> Some 0"
    by (cases "obj_fee arg") auto
  show ?thesis
    using assms t1 t2 n ci fe
    by (auto simp: fromObject_def no_change_state_def Let_def split: sum.splits if_splits)
qed

text \<open>
  A snapshot with \<open>changeIndex = 0\<close> and \<open>fee = 0\<close> is reconstructed with both fields
  unset (its change output is then an ordinary output); one with \<open>changeIndex = 1\<close> and
  \<open>fee = 7\<close> gets both back.
\<close>

theorem fromObject_drops_zero_witness:
  "fromObject sample_collab snapshot_zero Transaction_blank = Inr reconstructed_zero
   \<and> priv_changeIndex reconstructed_zero = None \<and> priv_fee reconstructed_zero = None
   \<and> fromObject sample_collab snapshot_nonzero Transaction_blank = Inr reconstructed_nonzero
   \<and> priv_changeIndex reconstructed_nonzero = Some 1
   \<and> priv_fee reconstructed_nonzero = Some 7"
proof -
  have z: "fromObject sample_collab snapshot_zero Transaction_blank = Inr reconstructed_zero"
    by (simp add: fromObject_def snapshot_zero_def reconstructed_zero_def addOutput_def
        priv_addOutput_def priv_updateChangeOutput_def priv_checkConsistency_def
        fresh_oid_def Transaction_blank_def Output_new_def
        JSUtil_isNaturalNumber_def)
  have n: "fromObject sample_collab snapshot_nonzero Transaction_blank
           = Inr reconstructed_nonzero"
    by (simp add: fromObject_def snapshot_nonzero_def reconstructed_nonzero_def addOutput_def
        priv_addOutput_def priv_updateChangeOutput_def priv_checkConsistency_def
        fresh_oid_def Transaction_blank_def Output_new_def
        JSUtil_isNaturalNumber_def)
  show ?thesis
    using z n fromObject_drops_zero[OF z] fromObject_drops_zero[OF n]
    by (simp add: snapshot_zero_def snapshot_nonzero_def)
qed

end
